theory Spec2Isabelle
  imports Main
begin


section \<open>Token scanner (parser/lexer.go)\<close>

text \<open>
  The scanner works on a Go string, that is a sequence of bytes: \<^typ>\<open>string\<close> is a list
  of 8-bit characters and \<open>length\<close> counts bytes, as Go's \<open>len\<close> does. Offsets into the
  buffer (\<open>Pos\<close>, \<open>current\<close>) are Go \<open>int\<close>s that are never negative and never exceed the
  buffer length by more than one, so they are natural numbers here. The only counter of the
  scanner that can grow without bound is the one of \<open>consumeMultiLineComment\<close>; see there.
\<close>

type_synonym Pos = nat
type_synonym TokenKind = string

definition TokenEOF :: TokenKind where "TokenEOF = ''<eof>''"
definition TokenIdent :: TokenKind where "TokenIdent = ''<ident>''"
definition TokenKeyword :: TokenKind where "TokenKeyword = ''<keyword>''"
definition TokenInt :: TokenKind where "TokenInt = ''<int>''"
definition TokenFloat :: TokenKind where "TokenFloat = ''<float>''"
definition TokenString :: TokenKind where "TokenString = ''<string>''"
definition TokenCast :: TokenKind where "TokenCast = ''<cast>''"
definition TokenArrow :: TokenKind where "TokenArrow = ''<arrow>''"

record Token =
  Pos :: Pos
  End :: Pos
  Kind :: TokenKind
  String :: string
  Base :: int
  Unquoted :: bool

record Lexer =
  input :: string
  current :: nat
  lastToken :: "Token option"

text \<open>
  Every error the scanner returns, and the one way it can panic: \<open>peekN\<close> indexes the
  buffer without a bounds check.
\<close>

datatype lex_error =
    InvalidNumber
  | ExponentWithoutDigit
  | UnclosedQuotedIdent string
  | InvalidString
  | DotAfterNonIdent TokenKind
  | DotNotBeforeIdent TokenKind
  | IndexOutOfRange

definition NewLexer :: "string \<Rightarrow> Lexer" where
  "NewLexer buf = \<lparr>input = buf, current = 0, lastToken = None\<rparr>"

definition skipN :: "Lexer \<Rightarrow> nat \<Rightarrow> Lexer" where
  "skipN l n = l\<lparr>current := current l + n\<rparr>"

text \<open>\<open>l.input[l.current+i : l.current+j]\<close>; every call of the scanner is within the buffer.\<close>

definition slice :: "Lexer \<Rightarrow> nat \<Rightarrow> nat \<Rightarrow> string" where
  "slice l i j = take (j - i) (drop (current l + i) (input l))"

definition peekOk :: "Lexer \<Rightarrow> nat \<Rightarrow> bool" where
  "peekOk l n \<longleftrightarrow> current l + n < length (input l)"

text \<open>\<open>None\<close> is Go's index-out-of-range panic.\<close>

definition peekN :: "Lexer \<Rightarrow> nat \<Rightarrow> char option" where
  "peekN l n = (if current l + n < length (input l) then Some (input l ! (current l + n)) else None)"

definition isEOF :: "Lexer \<Rightarrow> bool" where
  "isEOF l \<longleftrightarrow> current l \<ge> length (input l)"

text \<open>
  The guarded read \<open>l.peekOk(n) && p(l.peekN(n))\<close>: Go's \<open>&&\<close> does not evaluate the
  read when the guard fails.
\<close>

definition peekIs :: "Lexer \<Rightarrow> nat \<Rightarrow> (char \<Rightarrow> bool) \<Rightarrow> bool" where
  "peekIs l n p \<longleftrightarrow> peekOk l n \<and> (case peekN l n of None \<Rightarrow> False | Some c \<Rightarrow> p c)"

subsection \<open>Character classes and the keyword table\<close>

text \<open>
  Modelled from the spec: the byte classes \<open>IsDigit\<close>, \<open>IsHexDigit\<close>, \<open>IsIdentStart\<close> and
  \<open>IsIdentPart\<close> are called by lexer.go and declared elsewhere in the package. The spec names them
  (digit run in the selected base, a character that can start an identifier,
  identifier-continuation characters); they are the ASCII classes of those names.
\<close>

definition IsDigit :: "char \<Rightarrow> bool" where
  "IsDigit c \<longleftrightarrow> c \<in> set ''0123456789''"

definition IsHexDigit :: "char \<Rightarrow> bool" where
  "IsHexDigit c \<longleftrightarrow> IsDigit c \<or> c \<in> set ''abcdef'' \<or> c \<in> set ''ABCDEF''"

definition IsIdentStart :: "char \<Rightarrow> bool" where
  "IsIdentStart c \<longleftrightarrow>
     c \<in> set ''abcdefghijklmnopqrstuvwxyz'' \<or> c \<in> set ''ABCDEFGHIJKLMNOPQRSTUVWXYZ'' \<or> c = CHR ''_''"

definition IsIdentPart :: "char \<Rightarrow> bool" where
  "IsIdentPart c \<longleftrightarrow> IsIdentStart c \<or> IsDigit c"

text \<open>
  \<open>strings.ToUpper\<close> of the Go library on the ASCII letters; other bytes are left as
  they are. The library function also maps the letters outside ASCII, so this definition
  is that function on ASCII strings only; a text with other letters is outside the model.
  The scanner applies it to unquoted identifiers, which are ASCII since \<open>IsIdentPart\<close>
  accepts ASCII bytes only, and the grammar to the text of an operator token and to the
  name of an interval unit.
\<close>

definition upperChar :: "char \<Rightarrow> char" where
  "upperChar c =
     (case map_of (zip ''abcdefghijklmnopqrstuvwxyz'' ''ABCDEFGHIJKLMNOPQRSTUVWXYZ'') c of
        None \<Rightarrow> c
      | Some u \<Rightarrow> u)"

definition ToUpper :: "string \<Rightarrow> string" where
  "ToUpper s = map upperChar s"

text \<open>
  Modelled from the spec: the keyword table (\<open>keywords\<close> in lexer.go) is declared elsewhere
  in the package. The spec describes it as a fixed set of reserved words, looked up by
  the uppercased text. The table here holds the reserved words that the grammar in
  parser_column.go names.
\<close>

definition keywords_table :: "string list" where
  "keywords_table =
     [''ALIAS'', ''AND'', ''AS'', ''CASE'', ''CAST'', ''CODEC'', ''COMMENT'', ''DATE'',
      ''DEFAULT'', ''DISTINCT'', ''ELSE'', ''END'', ''EXTRACT'', ''FROM'', ''GLOBAL'',
      ''ILIKE'', ''IN'', ''INTERVAL'', ''IS'', ''LIKE'', ''MATERIALIZED'', ''NOT'',
      ''NULL'', ''OR'', ''SELECT'', ''THEN'', ''TIMESTAMP'', ''WHEN'']"

definition isKeyword :: "string \<Rightarrow> bool" where
  "isKeyword ident \<longleftrightarrow> ident \<in> set keywords_table"

subsection \<open>Whitespace: \<open>utf8.DecodeRuneInString\<close> and \<open>unicode.IsSpace\<close>\<close>

definition RuneError :: nat where "RuneError = 0xFFFD"

definition byte :: "char \<Rightarrow> nat" where
  "byte c = of_char c"

definition cont :: "nat \<Rightarrow> bool" where
  "cont b \<longleftrightarrow> 0x80 \<le> b \<and> b \<le> 0xBF"

text \<open>
  The first rune of a byte string and its width in bytes, as the Go library decodes it:
  an empty string gives width 0, and any invalid, truncated, overlong or surrogate
  encoding gives \<open>RuneError\<close> with width 1.
\<close>

fun DecodeRuneInString :: "string \<Rightarrow> nat \<times> nat" where
  "DecodeRuneInString [] = (RuneError, 0)"
| "DecodeRuneInString (c0 # cs) =
     (let b0 = byte c0 in
      if b0 < 0x80 then (b0, 1)
      else if b0 < 0xC2 \<or> 0xF4 < b0 then (RuneError, 1)
      else (case cs of
          [] \<Rightarrow> (RuneError, 1)
        | c1 # cs1 \<Rightarrow>
           (let b1 = byte c1;
                lo = (if b0 = 0xE0 then 0xA0 else if b0 = 0xF0 then 0x90 else 0x80);
                hi = (if b0 = 0xED then 0x9F else if b0 = 0xF4 then 0x8F else 0xBF) in
            if b1 < lo \<or> hi < b1 then (RuneError, 1)
            else if b0 < 0xE0 then ((b0 mod 0x20) * 0x40 + b1 mod 0x40, 2)
            else (case cs1 of
                [] \<Rightarrow> (RuneError, 1)
              | c2 # cs2 \<Rightarrow>
                 (let b2 = byte c2 in
                  if \<not> cont b2 then (RuneError, 1)
                  else if b0 < 0xF0
                    then ((b0 mod 0x10) * 0x1000 + (b1 mod 0x40) * 0x40 + b2 mod 0x40, 3)
                  else (case cs2 of
                      [] \<Rightarrow> (RuneError, 1)
                    | c3 # _ \<Rightarrow>
                       (let b3 = byte c3 in
                        if \<not> cont b3 then (RuneError, 1)
                        else ((b0 mod 0x08) * 0x40000 + (b1 mod 0x40) * 0x1000
                                + (b2 mod 0x40) * 0x40 + b3 mod 0x40, 4))))))))"

definition IsSpace :: "nat \<Rightarrow> bool" where
  "IsSpace r \<longleftrightarrow>
     (0x09 \<le> r \<and> r \<le> 0x0D) \<or> r = 0x20 \<or> r = 0x85 \<or> r = 0xA0 \<or> r = 0x1680
     \<or> (0x2000 \<le> r \<and> r \<le> 0x200A) \<or> r = 0x2028 \<or> r = 0x2029 \<or> r = 0x202F
     \<or> r = 0x205F \<or> r = 0x3000"

lemma DecodeRuneInString_width:
  "s \<noteq> [] \<Longrightarrow> 0 < snd (DecodeRuneInString s)"
  by (cases s) (auto simp: Let_def split: list.splits)

function skipSpace :: "Lexer \<Rightarrow> Lexer" where
  "skipSpace l =
     (if isEOF l then l
      else (case DecodeRuneInString (drop (current l) (input l)) of
        (r, width) \<Rightarrow>
          if \<not> IsSpace r then l
          else skipSpace (l\<lparr>current := current l + width\<rparr>)))"
  by pat_completeness auto

termination
proof (relation "measure (\<lambda>l. length (input l) - current l)")
  show "wf (measure (\<lambda>l. length (input l) - current l))" by simp
next
  fix l :: Lexer and r width :: nat
  assume a: "\<not> isEOF l" and rs: "(r, width) = DecodeRuneInString (drop (current l) (input l))"
  from a have "drop (current l) (input l) \<noteq> []" by (simp add: isEOF_def)
  from DecodeRuneInString_width [OF this] rs have "0 < width"
    by (metis snd_conv)
  with a show "(l\<lparr>current := current l + width\<rparr>, l) \<in> measure (\<lambda>l. length (input l) - current l)"
    by (simp add: isEOF_def)
qed

declare skipSpace.simps [simp del]

subsection \<open>Numbers\<close>

text \<open>
  The loop of \<open>consumeNumber\<close>, with its loop variables \<open>i\<close>, \<open>tokenKind\<close>, \<open>hasExp\<close> and
  \<open>hasNumberPart\<close> as arguments. It returns the error of an early return, or the
  variables at the exit of the loop. \<open>base\<close> is 10 or 16.
\<close>

function numberLoop ::
  "Lexer \<Rightarrow> int \<Rightarrow> nat \<Rightarrow> TokenKind \<Rightarrow> bool \<Rightarrow> bool \<Rightarrow> lex_error + (nat \<times> TokenKind \<times> bool)" where
  "numberLoop l base i tokenKind hasExp hasNumberPart =
     (case peekN l i of
        None \<Rightarrow> Inr (i, tokenKind, hasNumberPart)
      | Some c \<Rightarrow>
          if base = 10 \<and> IsDigit c then numberLoop l base (i + 1) tokenKind hasExp True
          else if base = 16 \<and> IsHexDigit c then numberLoop l base (i + 1) tokenKind hasExp True
          else if c = CHR ''.'' then numberLoop l base (i + 1) TokenFloat hasExp True
          else if base \<noteq> 16 \<and> c \<in> set ''eEpP'' then
            (if hasExp then Inl InvalidNumber
             else
               (let i1 = i + 1;
                    i2 = (if peekIs l i1 (\<lambda>d. d = CHR ''+'' \<or> d = CHR ''-'') then i1 + 1 else i1) in
                if \<not> peekOk l i2 \<or> \<not> peekIs l i2 IsDigit then Inl ExponentWithoutDigit
                else numberLoop l base i2 tokenKind True True))
          else Inr (i, tokenKind, True))"
  by pat_completeness auto

termination
  by (relation "measure (\<lambda>(l, base, i, k, e, h). length (input l) - (current l + i))")
     (auto simp: peekN_def peekOk_def Let_def split: if_splits)

declare numberLoop.simps [simp del]

definition consumeNumber :: "Lexer \<Rightarrow> lex_error option \<times> Lexer" where
  "consumeNumber l =
     (case peekN l 0 of
        None \<Rightarrow> (Some IndexOutOfRange, l)
      | Some c0 \<Rightarrow>
         (let i0 = (if c0 = CHR ''+'' \<or> c0 = CHR ''-'' then 1 else 0);
              hex = (c0 = CHR ''0'' \<and> peekIs l 1 (\<lambda>d. d = CHR ''x''));
              i1 = (if hex then i0 + 2 else i0);
              base = (if hex then 16 else 10) in
          case numberLoop l base i1 TokenInt False False of
            Inl e \<Rightarrow> (Some e, l)
          | Inr (i, tokenKind, hasNumberPart) \<Rightarrow>
              if peekIs l i IsIdentPart \<or> \<not> hasNumberPart then (Some InvalidNumber, l)
              else (None,
                skipN (l\<lparr>lastToken := Some
                  \<lparr>Pos = current l, End = current l + i, Kind = tokenKind,
                   String = slice l 0 i, Base = base, Unquoted = False\<rparr>\<rparr>) i)))"

subsection \<open>Identifiers, strings and comments\<close>

text \<open>
  The scanning loops \<open>for l.peekOk(i) && p(l.peekN(i)) { i++ }\<close> of \<open>consumeIdent\<close>,
  \<open>consumeString\<close> and \<open>consumeSingleLineComment\<close>: the value of \<open>i\<close> at the exit.
\<close>

function scanWhile :: "Lexer \<Rightarrow> (char \<Rightarrow> bool) \<Rightarrow> nat \<Rightarrow> nat" where
  "scanWhile l p i = (if peekIs l i p then scanWhile l p (i + 1) else i)"
  by pat_completeness auto

termination
  by (relation "measure (\<lambda>(l, p, i). length (input l) - (current l + i))")
     (auto simp: peekIs_def peekOk_def)

declare scanWhile.simps [simp del]

definition consumeIdent :: "Lexer \<Rightarrow> lex_error option \<times> Lexer" where
  "consumeIdent l0 =
     (let isUnquoted = peekIs l0 0 (\<lambda>c. c = CHR ''`'');
          l = (if isUnquoted then skipN l0 1 else l0) in
      if \<not> isUnquoted then
        (case peekN l 0 of
           None \<Rightarrow> (Some IndexOutOfRange, l)
         | Some c0 \<Rightarrow>
            (let i = scanWhile l IsIdentPart (if c0 = CHR ''$'' then 1 else 0);
                 s = slice l 0 i in
             (None,
              skipN (l\<lparr>lastToken := Some
                \<lparr>Pos = current l, End = current l + i,
                 Kind = (if isKeyword (ToUpper s) then TokenKeyword else TokenIdent),
                 String = s, Base = 0, Unquoted = False\<rparr>\<rparr>) i)))
      else
        (let i = scanWhile l (\<lambda>c. c \<noteq> CHR ''`'') 0 in
         if \<not> peekOk l i \<or> \<not> peekIs l i (\<lambda>c. c = CHR ''`'')
           then (Some (UnclosedQuotedIdent (slice l 0 i)), l)
         else
           (None,
            skipN (skipN (l\<lparr>lastToken := Some
              \<lparr>Pos = current l, End = current l + i, Kind = TokenIdent,
               String = slice l 0 i, Base = 0, Unquoted = True\<rparr>\<rparr>) i) 1)))"

definition consumeSingleLineComment :: "Lexer \<Rightarrow> Lexer" where
  "consumeSingleLineComment l0 =
     (let l = skipN l0 2;
          i = scanWhile l (\<lambda>c. c \<noteq> CHR 0x0D \<and> c \<noteq> CHR 0x0A) 0 in
      skipN l (i + 1))"

text \<open>
  The loop of \<open>consumeMultiLineComment\<close>. Its condition \<open>!l.isEOF()\<close> reads \<open>l.current\<close>,
  which the loop does not change, and the loop is left only through \<open>break\<close>: it may run
  forever, and \<open>None\<close> is that it does not return. The counter \<open>i\<close> is unbounded here; with
  Go's 64-bit \<open>int\<close> the sum \<open>l.current+i+1\<close> would wrap after about \<open>2^63\<close> rounds and
  \<open>l.peekN(i)\<close> would then panic on an index out of range, which is not a return either.
\<close>

partial_function (option) multiLineCommentLoop :: "Lexer \<Rightarrow> nat \<Rightarrow> nat option" where
  "multiLineCommentLoop l i =
     (if isEOF l then Some i
      else if peekOk l (i + 1) \<and> peekN l i = Some (CHR ''*'') \<and> peekN l (i + 1) = Some (CHR ''/'')
        then Some (i + 2)
      else multiLineCommentLoop l (i + 1))"

definition consumeMultiLineComment :: "Lexer \<Rightarrow> Lexer option" where
  "consumeMultiLineComment l0 =
     (let l = skipN l0 2 in
      case multiLineCommentLoop l 0 of
        None \<Rightarrow> None
      | Some i \<Rightarrow> Some (skipN l i))"

definition consumeString :: "Lexer \<Rightarrow> bool \<Rightarrow> lex_error option \<times> Lexer" where
  "consumeString l isSingleQuote =
     (let endChar = (if isSingleQuote then CHR 0x27 else CHR 0x22);
          i = scanWhile l (\<lambda>c. c \<noteq> endChar) 1 in
      if \<not> peekOk l i then (Some InvalidString, l)
      else (None,
        skipN (l\<lparr>lastToken := Some
          \<lparr>Pos = current l + 1, End = current l + i, Kind = TokenString,
           String = slice l 1 i, Base = 0, Unquoted = False\<rparr>\<rparr>) (i + 1)))"

text \<open>
  \<open>skipComments\<close> loops as long as it finds a comment or a line break; it does not return
  when \<open>consumeMultiLineComment\<close> does not.
\<close>

partial_function (option) skipComments :: "Lexer \<Rightarrow> Lexer option" where
  "skipComments l =
     (if isEOF l then Some l
      else if peekN l 0 = Some (CHR ''-'') then
        (if peekIs l 1 (\<lambda>c. c = CHR ''-'') then skipComments (consumeSingleLineComment l)
         else Some l)
      else if peekN l 0 = Some (CHR ''/'') then
        (if peekIs l 1 (\<lambda>c. c = CHR ''*'')
           then Option.bind (consumeMultiLineComment l) skipComments
         else Some l)
      else if peekN l 0 = Some (CHR 0x0D) \<or> peekN l 0 = Some (CHR 0x0A) then skipComments (skipN l 1)
      else Some l)"

subsection \<open>\<open>consumeToken\<close> and \<open>peekToken\<close>\<close>

text \<open>
  The three places of \<open>consumeToken\<close> that store a two-character token of a given kind and
  skip it.
\<close>

definition twoCharToken :: "Lexer \<Rightarrow> TokenKind \<Rightarrow> lex_error option \<times> Lexer" where
  "twoCharToken l kind =
     (None,
      skipN (l\<lparr>lastToken := Some
        \<lparr>Pos = current l, End = current l + 2, Kind = kind,
         String = slice l 0 2, Base = 0, Unquoted = False\<rparr>\<rparr>) 2)"

text \<open>
  The end of \<open>consumeToken\<close>, after the \<open>switch\<close>: an identifier, or a one-character
  token whose kind is its text. \<open>c\<close> is \<open>l.peekN(0)\<close>.
\<close>

definition identOrSymbol :: "Lexer \<Rightarrow> char \<Rightarrow> lex_error option \<times> Lexer" where
  "identOrSymbol l c =
     (if IsIdentStart c then consumeIdent l
      else (None,
        skipN (l\<lparr>lastToken := Some
          \<lparr>Pos = current l, End = current l + 1, Kind = slice l 0 1,
           String = slice l 0 1, Base = 0, Unquoted = False\<rparr>\<rparr>) 1))"

definition afterSwitch :: "Lexer \<Rightarrow> char \<Rightarrow> lex_error option \<times> Lexer" where
  "afterSwitch l c =
     (case lastToken l of
        None \<Rightarrow> identOrSymbol l c
      | Some t \<Rightarrow>
          if Kind t = ''.'' \<and> \<not> IsIdentStart c then (Some (DotNotBeforeIdent (Kind t)), l)
          else identOrSymbol l c)"

text \<open>
  \<open>consumeToken\<close> from its \<open>switch l.peekN(0)\<close> on. A case of the \<open>switch\<close> whose inner
  condition fails leaves the \<open>switch\<close> and goes on with \<open>afterSwitch\<close>.
\<close>

definition scanToken :: "Lexer \<Rightarrow> lex_error option \<times> Lexer" where
  "scanToken l =
     (case peekN l 0 of
        None \<Rightarrow> (Some IndexOutOfRange, l)
      | Some c \<Rightarrow>
          if c \<in> set ''><!=|'' then
            (if c = CHR ''|'' \<and> peekIs l 1 (\<lambda>d. d = CHR ''|'')
                \<or> c = CHR ''<'' \<and> peekIs l 1 (\<lambda>d. d = CHR ''>'')
                \<or> c = CHR ''='' \<and> peekIs l 1 (\<lambda>d. d = CHR ''='')
                \<or> c \<noteq> CHR ''|'' \<and> peekIs l 1 (\<lambda>d. d = CHR ''='')
               then twoCharToken l (slice l 0 2)
             else afterSwitch l c)
          else if c \<in> set ''+-'' then
            (if peekIs l 1 IsDigit then consumeNumber l
             else if peekIs l 1 (\<lambda>d. d = CHR ''>'') then twoCharToken l TokenArrow
             else afterSwitch l c)
          else if c \<in> set ''0123456789'' then consumeNumber l
          else if c = CHR ''`'' \<or> c = CHR ''$'' then consumeIdent l
          else if c = CHR 0x27 then consumeString l True
          else if c = CHR 0x22 then consumeString l False
          else if c = CHR '':'' then
            (if peekIs l 1 (\<lambda>d. d = CHR '':'') then twoCharToken l TokenCast
             else afterSwitch l c)
          else if c = CHR ''.'' then
            (if peekIs l 1 IsDigit then consumeNumber l
             else (case lastToken l of
                None \<Rightarrow> afterSwitch l c
              | Some t \<Rightarrow>
                  if Kind t \<noteq> TokenIdent then (Some (DotAfterNonIdent (Kind t)), l)
                  else afterSwitch l c))
          else afterSwitch l c)"

text \<open>
  \<open>consumeToken\<close> returns an error or nil and leaves the scanner changed in both cases:
  the result is the error, if any, and the scanner after the call. \<open>None\<close> is that the
  call does not return.
\<close>

definition consumeToken :: "Lexer \<Rightarrow> (lex_error option \<times> Lexer) option" where
  "consumeToken l0 =
     (let l1 = skipSpace l0;
          l2 = l1\<lparr>lastToken := None\<rparr> in
      case skipComments l2 of
        None \<Rightarrow> None
      | Some l3 \<Rightarrow>
         (let l4 = skipSpace l3 in
          if isEOF l4 then Some (None, l4) else Some (scanToken l4)))"

text \<open>
  \<open>peekToken\<close> returns \<open>(token, nil)\<close> or \<open>(nil, err)\<close>; the token is a pointer that is
  nil at the end of the input.
\<close>

definition peekToken :: "Lexer \<Rightarrow> ((lex_error + Token option) \<times> Lexer) option" where
  "peekToken l =
     (case consumeToken l of
        None \<Rightarrow> None
      | Some (Some err, l') \<Rightarrow> Some (Inl err, l')
      | Some (None, l') \<Rightarrow>
          Some (Inr (lastToken l'), l'\<lparr>lastToken := lastToken l, current := current l\<rparr>))"



text \<open>The two errors of \<open>consumeToken\<close> about a misplaced \<open>.\<close>.\<close>

fun isDotError :: "lex_error \<Rightarrow> bool" where
  "isDotError (DotAfterNonIdent k) = True"
| "isDotError (DotNotBeforeIdent k) = True"
| "isDotError e = False"

section \<open>Syntax tree and parser state (parser/parser_column.go)\<close>

text \<open>
  The node types are the structs that parser_column.go builds, with the fields of its
  struct literals in the order given below. The struct declarations themselves are
  elsewhere in the package. Every node type implements the interface \<open>Expr\<close>, so all of them are
  constructors of one datatype. The type variable \<open>'x\<close> stands for what the two external
  parsers build: the sub-query of \<open>parseSelectQuery\<close> and the column definitions of
  \<open>parseTableColumns\<close>.
\<close>

record Ident =
  NamePos :: Pos
  NameEnd :: Pos
  Name :: string

text \<open>
  Modelled from the spec: the literal nodes are built by \<open>parseNumber\<close> and \<open>parseString\<close>,
  declared elsewhere in the package; the spec says that they store the raw text and the span. \<open>NumEnd\<close> is read
  by \<open>parseEnumExpr\<close>.
\<close>

record NumberLiteral =
  NumPos :: Pos
  NumEnd :: Pos
  NumLiteral :: string
  NumBase :: int

record StringLiteral =
  LiteralPos :: Pos
  LiteralEnd :: Pos
  Literal :: string

datatype 'x Expr =
    IdentExpr Ident
  | NumberExpr NumberLiteral
  | StringExpr StringLiteral
  | AliasExpr Pos "'x Expr" Ident
      \<comment> \<open>AliasPos, Expr, Alias\<close>
  | BinaryExpr "'x Expr" TokenKind "'x Expr" bool bool
      \<comment> \<open>LeftExpr, Operation, RightExpr, HasNot, HasGlobal\<close>
  | NotExpr Pos "'x Expr"
      \<comment> \<open>NotPos, Expr\<close>
  | IsNullExpr Pos "'x Expr"
      \<comment> \<open>IsPos, Expr\<close>
  | IsNotNullExpr Pos "'x Expr"
      \<comment> \<open>IsPos, Expr\<close>
  | ObjectParams "'x Expr" "'x Expr"
      \<comment> \<open>Object, Params\<close>
  | TernaryExpr "'x Expr" "'x Expr" "'x Expr"
      \<comment> \<open>Condition, TrueExpr, FalseExpr\<close>
  | ExtractExpr Pos Ident Pos "'x Expr"
      \<comment> \<open>ExtractPos, Interval, FromPos, FromExpr\<close>
  | UnaryExpr Pos TokenKind "'x Expr"
      \<comment> \<open>UnaryPos, Kind, Expr\<close>
  | CastExpr Pos Pos "'x Expr" "'x Expr"
      \<comment> \<open>CastPos, AsPos, Expr, AsType\<close>
  | ColumnExprList Pos Pos bool "'x Expr list"
      \<comment> \<open>ListPos, ListEnd, HasDistinct, Items\<close>
  | IntervalExpr Pos "'x Expr" Ident
      \<comment> \<open>IntervalPos, Expr, Unit\<close>
  | FunctionExpr Ident "'x Expr"
      \<comment> \<open>Name, Params\<close>
  | ColumnArgList Pos Pos bool "'x Expr list"
      \<comment> \<open>LeftParenPos, RightParenPos, Distinct, Items\<close>
  | ParamExprList Pos Pos "'x Expr" "'x Expr option"
      \<comment> \<open>LeftParenPos, RightParenPos, Items, ColumnArgList (nil when absent)\<close>
  | ArrayParamList Pos Pos "'x Expr"
      \<comment> \<open>LeftBracketPos, RightBracketPos, Items\<close>
  | CaseExpr Pos "'x Expr" "(Pos \<times> Pos \<times> 'x Expr \<times> 'x Expr) list" Pos "'x Expr option"
      \<comment> \<open>CasePos, Expr, Whens (each WhenPos, ThenPos, When, Then), ElsePos, Else\<close>
  | ScalarTypeExpr Ident
      \<comment> \<open>Name\<close>
  | ComplexTypeExpr Pos Pos Ident "'x Expr list"
      \<comment> \<open>LeftParenPos, RightParenPos, Name, Params\<close>
  | EnumValueExprList Pos Pos "(StringLiteral \<times> NumberLiteral) list"
      \<comment> \<open>ListPos, ListEnd, Enums (each Name, Value)\<close>
  | TypeWithParamsExpr Ident Pos Pos "'x Expr list"
      \<comment> \<open>Name, LeftParenPos, RightParenPos, Params\<close>
  | NestedTypeExpr Pos Pos Ident 'x
      \<comment> \<open>LeftParenPos, RightParenPos, Name, Columns\<close>
  | SelectQuery 'x
      \<comment> \<open>the node of the external statement parser\<close>

text \<open>
  The errors of the grammar, one constructor for each message. A parse function returns
  a node or an error; it can also panic on a nil pointer, not return because the scanner
  does not, or, in this model, run out of the fuel that bounds the depth of its calls.
  The parser is the pointer to its scanner, so its state is the \<^typ>\<open>Lexer\<close>. After an
  error the grammar never goes on, so the state is kept for \<open>Ok\<close> only.
\<close>

datatype parse_error =
    ScanError lex_error
  | ExpectedTokenKind TokenKind TokenKind
  | ExpectedKeyword string TokenKind
  | ExpectedAfterNot TokenKind
  | UnknownIntervalType string
  | UnexpectedTokenKind TokenKind
  | ExpectedNumber TokenKind
  | ExpectedLiteral TokenKind
  | ExternalError string

datatype 'a res = Ok 'a Lexer | Err parse_error | Panic | Hang | OutOfFuel

definition bind :: "'a res \<Rightarrow> ('a \<Rightarrow> Lexer \<Rightarrow> 'b res) \<Rightarrow> 'b res" where
  "bind r f = (case r of
      Ok v p \<Rightarrow> f v p | Err e \<Rightarrow> Err e | Panic \<Rightarrow> Panic | Hang \<Rightarrow> Hang | OutOfFuel \<Rightarrow> OutOfFuel)"

subsection \<open>Parser helpers\<close>

text \<open>
  Modelled from the spec: the methods of \<open>Parser\<close> that parser_column.go calls and that
  are declared elsewhere in the package (\<open>last\<close>, \<open>lastTokenKind\<close>, \<open>Pos\<close>, \<open>matchTokenKind\<close>,
  \<open>matchKeyword\<close>, \<open>tryConsumeTokenKind\<close>, \<open>consumeTokenKind\<close>, \<open>tryConsumeKeyword\<close>,
  \<open>consumeKeyword\<close>, \<open>parseIdent\<close>, \<open>parseNumber\<close>, \<open>parseString\<close>, \<open>parseLiteral\<close>). The spec
  describes the grammar driver as the scanner plus a cache of one token: the current
  token is the scanner's \<open>lastToken\<close>, nil at the end of the input; a match compares its
  kind (for a keyword also its text, case-insensitively); consuming a token is one
  \<open>consumeToken\<close>, whose error is dropped as in \<open>_ = p.lexer.consumeToken()\<close> of
  parser_column.go.
\<close>

definition last_token :: "Lexer \<Rightarrow> Token option" where
  "last_token p = lastToken p"

definition lastTokenKind :: "Lexer \<Rightarrow> TokenKind" where
  "lastTokenKind p = (case lastToken p of None \<Rightarrow> TokenEOF | Some t \<Rightarrow> Kind t)"

definition PosOf :: "Lexer \<Rightarrow> Pos" where
  "PosOf p = (case lastToken p of None \<Rightarrow> current p | Some t \<Rightarrow> Pos t)"

text \<open>
  \<open>strings.EqualFold\<close> of the Go library, as equality of the uppercased texts. It is
  that function on ASCII strings; the library function also identifies letters outside
  ASCII with ASCII letters (the Kelvin sign with \<open>k\<close>, the long s with \<open>s\<close>), which no
  keyword token of the scanner contains.
\<close>

definition EqualFold :: "string \<Rightarrow> string \<Rightarrow> bool" where
  "EqualFold s t \<longleftrightarrow> ToUpper s = ToUpper t"

definition matchTokenKind :: "Lexer \<Rightarrow> TokenKind \<Rightarrow> bool" where
  "matchTokenKind p kind \<longleftrightarrow> lastTokenKind p = kind"

definition matchKeyword :: "Lexer \<Rightarrow> string \<Rightarrow> bool" where
  "matchKeyword p keyword \<longleftrightarrow>
     matchTokenKind p TokenKeyword
     \<and> (case lastToken p of None \<Rightarrow> False | Some t \<Rightarrow> EqualFold (String t) keyword)"

text \<open>\<open>_ = p.lexer.consumeToken()\<close>\<close>

definition advance :: "Lexer \<Rightarrow> unit res" where
  "advance p = (case consumeToken p of None \<Rightarrow> Hang | Some (_, p') \<Rightarrow> Ok () p')"

definition tryConsumeTokenKind :: "Lexer \<Rightarrow> TokenKind \<Rightarrow> Token option res" where
  "tryConsumeTokenKind p kind =
     (case lastToken p of
        None \<Rightarrow> Ok None p
      | Some t \<Rightarrow>
          if Kind t = kind then bind (advance p) (\<lambda>_ p'. Ok (Some t) p')
          else Ok None p)"

definition consumeTokenKind :: "Lexer \<Rightarrow> TokenKind \<Rightarrow> Token res" where
  "consumeTokenKind p kind =
     bind (tryConsumeTokenKind p kind) (\<lambda>t p'.
       case t of
         None \<Rightarrow> Err (ExpectedTokenKind kind (lastTokenKind p'))
       | Some tk \<Rightarrow> Ok tk p')"

definition tryConsumeKeyword :: "Lexer \<Rightarrow> string \<Rightarrow> Token option res" where
  "tryConsumeKeyword p keyword =
     (if matchKeyword p keyword then bind (advance p) (\<lambda>_ p'. Ok (lastToken p) p')
      else Ok None p)"

definition consumeKeyword :: "Lexer \<Rightarrow> string \<Rightarrow> unit res" where
  "consumeKeyword p keyword =
     bind (tryConsumeKeyword p keyword) (\<lambda>t p'.
       case t of
         None \<Rightarrow> Err (ExpectedKeyword keyword (lastTokenKind p'))
       | Some _ \<Rightarrow> Ok () p')"

definition parseIdent :: "Lexer \<Rightarrow> Ident res" where
  "parseIdent p =
     bind (consumeTokenKind p TokenIdent) (\<lambda>t p'.
       Ok \<lparr>NamePos = Pos t, NameEnd = End t, Name = String t\<rparr> p')"

definition parseNumber :: "Pos \<Rightarrow> Lexer \<Rightarrow> NumberLiteral res" where
  "parseNumber pos p =
     (if matchTokenKind p TokenInt \<or> matchTokenKind p TokenFloat then
        bind (consumeTokenKind p (lastTokenKind p)) (\<lambda>t p'.
          Ok \<lparr>NumPos = pos, NumEnd = End t, NumLiteral = String t, NumBase = Base t\<rparr> p')
      else Err (ExpectedNumber (lastTokenKind p)))"

definition parseString :: "Pos \<Rightarrow> Lexer \<Rightarrow> StringLiteral res" where
  "parseString pos p =
     bind (consumeTokenKind p TokenString) (\<lambda>t p'.
       Ok \<lparr>LiteralPos = pos, LiteralEnd = End t, Literal = String t\<rparr> p')"

definition parseLiteral :: "Pos \<Rightarrow> Lexer \<Rightarrow> 'x Expr res" where
  "parseLiteral pos p =
     (if matchTokenKind p TokenInt \<or> matchTokenKind p TokenFloat then
        bind (parseNumber pos p) (\<lambda>n p'. Ok (NumberExpr n) p')
      else if matchTokenKind p TokenString then
        bind (parseString pos p) (\<lambda>s p'. Ok (StringExpr s) p')
      else Err (ExpectedLiteral (lastTokenKind p)))"

text \<open>
  Modelled from the spec: the table \<open>intervalType\<close> of the interval units, declared
  elsewhere in the package; a fixed set of time-unit names, looked up by the uppercased text.
\<close>

definition intervalType :: "string list" where
  "intervalType =
     [''SECOND'', ''MINUTE'', ''HOUR'', ''DAY'', ''WEEK'', ''MONTH'', ''QUARTER'', ''YEAR'']"

text \<open>
  What the grammar takes from outside: the statement parser for a sub-query, the parser
  of the column definitions of a \<open>Nested\<close> type, and the method \<open>End\<close> of the nodes, which
  \<open>parseColumnExprListWithTerm\<close> calls on the last item of a list.
\<close>

record 'x external =
  parseSelectQuery :: "Pos \<Rightarrow> Lexer \<Rightarrow> 'x res"
  parseTableColumns :: "Lexer \<Rightarrow> 'x res"
  nodeEnd :: "'x Expr \<Rightarrow> Pos"

section \<open>Expression and type grammar (parser/parser_column.go)\<close>

text \<open>
  The parse functions call each other in a cycle. Each function of the cycle is written
  here with one more argument \<open>R\<close>, which stands for the functions it calls: \<open>R c\<close> is the
  call \<open>c\<close>, so \<open>R (ParseAndExpr pos) p\<close> is \<open>p.parseAndExpr(pos)\<close>. A \<open>for\<close> loop is a call
  of its own, with the variables of the loop as arguments, that ends with the rest of the
  function after the loop. \<open>run\<close> below closes the cycle with a bound on the depth of
  calls.
\<close>

datatype 'x call =
    ParseExpr Pos
  | ParseOrExpr Pos
  | OrLoop "'x Expr"
  | ParseAndExpr Pos
  | AndLoop "'x Expr"
  | ParseNotExpr Pos
  | ParseIsOrNotNull Pos
  | ParseCompareExpr Pos
  | ParseAddSubExpr Pos
  | AddSubLoop "'x Expr"
  | ParseTernaryExpr "'x Expr"
  | ParseMulDivModExpr Pos
  | MulDivModLoop "'x Expr"
  | ParseColumnExtractExpr Pos
  | ParseUnaryExpr Pos
  | ParseColumnExpr Pos
  | ParseColumnCastExpr Pos
  | ParseColumnExprListWithTerm TokenKind Pos
  | ColumnExprListLoop TokenKind Pos bool "'x Expr list"
  | ParseColumnExprInterval Pos
  | ParseIdentOrFunction Pos
  | ParseColumnArgList Pos
  | ColumnArgListLoop Pos bool "'x Expr list"
  | ParseFunctionParams Pos
  | ParseArrayParams Pos
  | ParseColumnsExpr Pos
  | ParseColumnCaseExpr Pos
  | CaseWhenLoop Pos "'x Expr" "(Pos \<times> Pos \<times> 'x Expr \<times> 'x Expr) list"
  | ParseColumnType Pos
  | ParseComplexType Ident Pos
  | ComplexTypeLoop Ident Pos "'x Expr list"
  | ParseEnumExpr Pos
  | EnumLoop Pos "(StringLiteral \<times> NumberLiteral) list"
  | ParseColumnTypeWithParams Ident Pos
  | TypeParamsLoop Ident Pos "'x Expr list"

type_synonym 'x parsers = "'x call \<Rightarrow> Lexer \<Rightarrow> 'x Expr res"

text \<open>
  Modelled from the spec: the operator kinds \<open>opTypeXxx\<close> are declared elsewhere in the
  package. The
  spec lists the operators of each level; the kind of an operator token is its text, and
  \<open>opTypeAnd\<close> and \<open>opTypeOr\<close> are the words.
\<close>

definition opTypeAnd :: TokenKind where "opTypeAnd = ''AND''"
definition opTypeOr :: TokenKind where "opTypeOr = ''OR''"
definition opTypePlus :: TokenKind where "opTypePlus = ''+''"
definition opTypeMinus :: TokenKind where "opTypeMinus = ''-''"
definition opTypeMul :: TokenKind where "opTypeMul = ''*''"
definition opTypeDiv :: TokenKind where "opTypeDiv = ''/''"
definition opTypeMod :: TokenKind where "opTypeMod = ''%''"
definition opTypeEQ :: TokenKind where "opTypeEQ = ''=''"
definition opTypeLT :: TokenKind where "opTypeLT = ''<''"
definition opTypeLE :: TokenKind where "opTypeLE = ''<=''"
definition opTypeGE :: TokenKind where "opTypeGE = ''>=''"
definition opTypeGT :: TokenKind where "opTypeGT = ''>''"
definition opTypeDoubleEQ :: TokenKind where "opTypeDoubleEQ = ''==''"
definition opTypeNE :: TokenKind where "opTypeNE = ''!=''"
definition opTypeQuery :: TokenKind where "opTypeQuery = ''?''"

subsection \<open>Expressions\<close>

definition parseExpr :: "'x parsers \<Rightarrow> Pos \<Rightarrow> Lexer \<Rightarrow> 'x Expr res" where
  "parseExpr R pos p =
     bind (R (ParseOrExpr pos) p) (\<lambda>orExpr p1.
       if matchKeyword p1 ''AS'' then
         bind (advance p1) (\<lambda>_ p2.
         bind (parseIdent p2) (\<lambda>asIdent p3.
           Ok (AliasExpr (PosOf p1) orExpr asIdent) p3))
       else Ok orExpr p1)"

definition parseOrExpr :: "'x parsers \<Rightarrow> Pos \<Rightarrow> Lexer \<Rightarrow> 'x Expr res" where
  "parseOrExpr R pos p = bind (R (ParseAndExpr pos) p) (\<lambda>expr p1. R (OrLoop expr) p1)"

definition orLoop :: "'x parsers \<Rightarrow> 'x Expr \<Rightarrow> Lexer \<Rightarrow> 'x Expr res" where
  "orLoop R expr p =
     bind (tryConsumeKeyword p ''OR'') (\<lambda>t p1.
       case t of
         None \<Rightarrow> Ok expr p1
       | Some _ \<Rightarrow>
           bind (R (ParseAndExpr (PosOf p1)) p1) (\<lambda>rightExpr p2.
             R (OrLoop (BinaryExpr expr opTypeOr rightExpr False False)) p2))"

definition parseAndExpr :: "'x parsers \<Rightarrow> Pos \<Rightarrow> Lexer \<Rightarrow> 'x Expr res" where
  "parseAndExpr R pos p = bind (R (ParseNotExpr pos) p) (\<lambda>expr p1. R (AndLoop expr) p1)"

definition andLoop :: "'x parsers \<Rightarrow> 'x Expr \<Rightarrow> Lexer \<Rightarrow> 'x Expr res" where
  "andLoop R expr p =
     bind (tryConsumeKeyword p ''AND'') (\<lambda>t p1.
       case t of
         None \<Rightarrow> Ok expr p1
       | Some _ \<Rightarrow>
           bind (R (ParseNotExpr (PosOf p1)) p1) (\<lambda>rightExpr p2.
             R (AndLoop (BinaryExpr expr opTypeAnd rightExpr False False)) p2))"

definition parseNotExpr :: "'x parsers \<Rightarrow> Pos \<Rightarrow> Lexer \<Rightarrow> 'x Expr res" where
  "parseNotExpr R pos p =
     bind (tryConsumeKeyword p ''NOT'') (\<lambda>t p1.
       case t of
         None \<Rightarrow> R (ParseIsOrNotNull (PosOf p1)) p1
       | Some _ \<Rightarrow>
           bind (R (ParseNotExpr (PosOf p1)) p1) (\<lambda>notExpr p2.
             Ok (NotExpr pos notExpr) p2))"

definition parseIsOrNotNull :: "'x parsers \<Rightarrow> Pos \<Rightarrow> Lexer \<Rightarrow> 'x Expr res" where
  "parseIsOrNotNull R pos p =
     bind (R (ParseCompareExpr (PosOf p)) p) (\<lambda>expr p1.
     bind (tryConsumeKeyword p1 ''IS'') (\<lambda>t p2.
       case t of
         None \<Rightarrow> Ok expr p2
       | Some _ \<Rightarrow>
           bind (tryConsumeKeyword p2 ''NOT'') (\<lambda>isNotNull p3.
           bind (consumeKeyword p3 ''NULL'') (\<lambda>_ p4.
             if isNotNull \<noteq> None then Ok (IsNotNullExpr pos expr) p4
             else Ok (IsNullExpr pos expr) p4))))"

text \<open>
  The end of \<open>parseCompareExpr\<close>, after its \<open>switch\<close>: the operator is the uppercased text
  of the current token, read through the pointer \<open>p.last()\<close>.
\<close>

definition compareOperand ::
  "'x parsers \<Rightarrow> 'x Expr \<Rightarrow> bool \<Rightarrow> bool \<Rightarrow> Lexer \<Rightarrow> 'x Expr res" where
  "compareOperand R expr hasNot hasGlobal p =
     (case last_token p of
        None \<Rightarrow> Panic
      | Some t \<Rightarrow>
          bind (advance p) (\<lambda>_ p1.
          bind (R (ParseAddSubExpr (PosOf p1)) p1) (\<lambda>rightExpr p2.
            Ok (BinaryExpr expr (ToUpper (String t)) rightExpr hasNot hasGlobal) p2)))"

definition parseCompareExpr :: "'x parsers \<Rightarrow> Pos \<Rightarrow> Lexer \<Rightarrow> 'x Expr res" where
  "parseCompareExpr R pos p =
     bind (R (ParseAddSubExpr pos) p) (\<lambda>expr p1.
       if matchTokenKind p1 ''['' then
         bind (R (ParseArrayParams pos) p1) (\<lambda>params p2. Ok (ObjectParams expr params) p2)
       else if matchTokenKind p1 opTypeEQ \<or> matchTokenKind p1 opTypeLT
            \<or> matchTokenKind p1 opTypeLE \<or> matchTokenKind p1 opTypeGE
            \<or> matchTokenKind p1 opTypeGT \<or> matchTokenKind p1 opTypeDoubleEQ
            \<or> matchTokenKind p1 opTypeNE \<or> matchTokenKind p1 ''<>''
            \<or> matchTokenKind p1 opTypeQuery \<or> matchKeyword p1 ''IN''
            \<or> matchKeyword p1 ''LIKE'' \<or> matchKeyword p1 ''ILIKE''
         then compareOperand R expr False False p1
       else if matchKeyword p1 ''GLOBAL'' then
         bind (advance p1) (\<lambda>_ p2. compareOperand R expr False True p2)
       else if matchKeyword p1 ''NOT'' then
         bind (advance p1) (\<lambda>_ p2.
           if matchKeyword p2 ''IN'' \<or> matchKeyword p2 ''LIKE'' \<or> matchKeyword p2 ''ILIKE''
             then compareOperand R expr True False p2
           else Err (ExpectedAfterNot (lastTokenKind p2)))
       else Ok expr p1)"

definition parseAddSubExpr :: "'x parsers \<Rightarrow> Pos \<Rightarrow> Lexer \<Rightarrow> 'x Expr res" where
  "parseAddSubExpr R pos p =
     bind (R (ParseMulDivModExpr pos) p) (\<lambda>expr p1. R (AddSubLoop expr) p1)"

definition addSubLoop :: "'x parsers \<Rightarrow> 'x Expr \<Rightarrow> Lexer \<Rightarrow> 'x Expr res" where
  "addSubLoop R expr p =
     (if matchTokenKind p opTypePlus \<or> matchTokenKind p opTypeMinus then
        bind (advance p) (\<lambda>_ p1.
        bind (R (ParseMulDivModExpr (PosOf p1)) p1) (\<lambda>rightExpr p2.
          R (AddSubLoop (BinaryExpr expr (lastTokenKind p) rightExpr False False)) p2))
      else Ok expr p)"

definition parseTernaryExpr :: "'x parsers \<Rightarrow> 'x Expr \<Rightarrow> Lexer \<Rightarrow> 'x Expr res" where
  "parseTernaryExpr R condition p =
     bind (consumeTokenKind p ''?'') (\<lambda>_ p1.
     bind (R (ParseExpr (PosOf p1)) p1) (\<lambda>trueExpr p2.
     bind (consumeTokenKind p2 '':'') (\<lambda>_ p3.
     bind (R (ParseExpr (PosOf p3)) p3) (\<lambda>falseExpr p4.
       Ok (TernaryExpr condition trueExpr falseExpr) p4))))"

definition parseMulDivModExpr :: "'x parsers \<Rightarrow> Pos \<Rightarrow> Lexer \<Rightarrow> 'x Expr res" where
  "parseMulDivModExpr R pos p =
     bind (R (ParseUnaryExpr pos) p) (\<lambda>expr p1. R (MulDivModLoop expr) p1)"

definition mulDivModLoop :: "'x parsers \<Rightarrow> 'x Expr \<Rightarrow> Lexer \<Rightarrow> 'x Expr res" where
  "mulDivModLoop R expr p =
     (if matchTokenKind p opTypeQuery then R (ParseTernaryExpr expr) p
      else if matchTokenKind p opTypeMul \<or> matchTokenKind p opTypeDiv
           \<or> matchTokenKind p opTypeMod \<or> matchTokenKind p TokenArrow
           \<or> matchTokenKind p TokenCast then
        bind (advance p) (\<lambda>_ p1.
        bind (R (ParseUnaryExpr (PosOf p1)) p1) (\<lambda>rightExpr p2.
          R (MulDivModLoop (BinaryExpr expr (lastTokenKind p) rightExpr False False)) p2))
      else Ok expr p)"

definition parseColumnExtractExpr :: "'x parsers \<Rightarrow> Pos \<Rightarrow> Lexer \<Rightarrow> 'x Expr res" where
  "parseColumnExtractExpr R pos p =
     bind (consumeKeyword p ''EXTRACT'') (\<lambda>_ p1.
     bind (consumeTokenKind p1 ''('') (\<lambda>_ p2.
     bind (parseIdent p2) (\<lambda>ident p3.
       if ToUpper (Name ident) \<notin> set intervalType then Err (UnknownIntervalType (Name ident))
       else
         bind (consumeKeyword p3 ''FROM'') (\<lambda>_ p4.
         bind (R (ParseExpr (PosOf p4)) p4) (\<lambda>expr p5.
         bind (consumeKeyword p5 '')'') (\<lambda>_ p6.
           Ok (ExtractExpr pos ident (PosOf p3) expr) p6))))))"

definition parseUnaryExpr :: "'x parsers \<Rightarrow> Pos \<Rightarrow> Lexer \<Rightarrow> 'x Expr res" where
  "parseUnaryExpr R pos p =
     (if matchTokenKind p opTypePlus \<or> matchTokenKind p opTypeMinus \<or> matchKeyword p ''NOT'' then
        bind (advance p) (\<lambda>_ p1.
        bind (if matchTokenKind p1 TokenIdent \<or> matchTokenKind p1 ''(''
                then R (ParseExpr (PosOf p1)) p1
              else R (ParseColumnExpr (PosOf p1)) p1) (\<lambda>expr p2.
          case last_token p of
            None \<Rightarrow> Panic
          | Some kind \<Rightarrow> Ok (UnaryExpr pos (Kind kind) expr) p2))
      else R (ParseColumnExpr pos) p)"

definition parseColumnStar :: "Pos \<Rightarrow> Lexer \<Rightarrow> 'x Expr res" where
  "parseColumnStar pos p =
     bind (consumeTokenKind p ''*'') (\<lambda>_ p1.
       Ok (IdentExpr \<lparr>NamePos = pos, NameEnd = pos, Name = ''*''\<rparr>) p1)"

definition parseColumnExpr ::
  "'x external \<Rightarrow> 'x parsers \<Rightarrow> Pos \<Rightarrow> Lexer \<Rightarrow> 'x Expr res" where
  "parseColumnExpr X R pos p =
     (if matchKeyword p ''INTERVAL'' then R (ParseColumnExprInterval pos) p
      else if matchKeyword p ''DATE'' \<or> matchKeyword p ''TIMESTAMP'' then
        (case peekToken p of
           None \<Rightarrow> Hang
         | Some (Inl err, p1) \<Rightarrow> Err (ScanError err)
         | Some (Inr None, p1) \<Rightarrow> Panic
         | Some (Inr (Some nextToken), p1) \<Rightarrow>
             if Kind nextToken = TokenString
               then bind (parseString pos p1) (\<lambda>s p2. Ok (StringExpr s) p2)
             else R (ParseIdentOrFunction pos) p1)
      else if matchKeyword p ''CAST'' then R (ParseColumnCastExpr pos) p
      else if matchKeyword p ''CASE'' then R (ParseColumnCaseExpr pos) p
      else if matchKeyword p ''EXTRACT'' then R (ParseColumnExtractExpr pos) p
      else if matchTokenKind p TokenIdent then R (ParseIdentOrFunction pos) p
      else if matchTokenKind p TokenString then
        bind (parseString pos p) (\<lambda>s p1. Ok (StringExpr s) p1)
      else if matchTokenKind p TokenInt \<or> matchTokenKind p TokenFloat then
        bind (parseNumber pos p) (\<lambda>n p1. Ok (NumberExpr n) p1)
      else if matchTokenKind p ''('' then
        (case peekToken p of
           None \<Rightarrow> Hang
         | Some (Inl err, p1) \<Rightarrow> R (ParseFunctionParams pos) p1
         | Some (Inr None, p1) \<Rightarrow> R (ParseFunctionParams pos) p1
         | Some (Inr (Some peek), p1) \<Rightarrow>
             if Kind peek = TokenKeyword \<and> EqualFold (String peek) ''SELECT''
               then bind (parseSelectQuery X pos p1) (\<lambda>q p2. Ok (SelectQuery q) p2)
             else R (ParseFunctionParams pos) p1)
      else if matchTokenKind p ''*'' then parseColumnStar pos p
      else if matchTokenKind p ''['' then R (ParseArrayParams pos) p
      else Err (UnexpectedTokenKind (lastTokenKind p)))"

definition parseColumnCastExpr :: "'x parsers \<Rightarrow> Pos \<Rightarrow> Lexer \<Rightarrow> 'x Expr res" where
  "parseColumnCastExpr R pos p =
     bind (consumeKeyword p ''CAST'') (\<lambda>_ p1.
     bind (consumeTokenKind p1 ''('') (\<lambda>_ p2.
     bind (R (ParseExpr (PosOf p2)) p2) (\<lambda>columnExpr p3.
     bind (consumeKeyword p3 ''AS'') (\<lambda>_ p4.
     bind (R (ParseColumnType (PosOf p4)) p4) (\<lambda>asColumnType p5.
     bind (consumeTokenKind p5 '')'') (\<lambda>_ p6.
       Ok (CastExpr pos (PosOf p3) columnExpr asColumnType) p6))))))"

text \<open>
  \<open>parseColumnExprListWithRoundBracket\<close> and \<open>parseColumnExprListWithSquareBracket\<close> are
  \<open>parseColumnExprListWithTerm\<close> with the terminators \<open>)\<close> and \<open>]\<close>. The test
  \<open>columnExpr == nil\<close> of the loop is never true after a successful \<open>parseColumnsExpr\<close>,
  which returns a node.
\<close>

definition parseColumnExprListWithTerm ::
  "'x parsers \<Rightarrow> TokenKind \<Rightarrow> Pos \<Rightarrow> Lexer \<Rightarrow> 'x Expr res" where
  "parseColumnExprListWithTerm R term pos p =
     bind (tryConsumeKeyword p ''DISTINCT'') (\<lambda>t p1.
       R (ColumnExprListLoop term pos (t \<noteq> None) []) p1)"

definition columnExprListLoop ::
  "'x external \<Rightarrow> 'x parsers \<Rightarrow> TokenKind \<Rightarrow> Pos \<Rightarrow> bool \<Rightarrow> 'x Expr list \<Rightarrow> Lexer \<Rightarrow> 'x Expr res" where
  "columnExprListLoop X R term pos hasDistinct columnList p =
     (if (\<not> isEOF p \<or> last_token p \<noteq> None) \<and> \<not> (term \<noteq> [] \<and> matchTokenKind p term) then
        bind (R (ParseColumnsExpr pos) p) (\<lambda>columnExpr p1.
        bind (tryConsumeTokenKind p1 '','') (\<lambda>t p2.
          case t of
            None \<Rightarrow>
              Ok (ColumnExprList pos (nodeEnd X columnExpr) hasDistinct
                    (columnList @ [columnExpr])) p2
          | Some _ \<Rightarrow>
              R (ColumnExprListLoop term pos hasDistinct (columnList @ [columnExpr])) p2))
      else
        Ok (ColumnExprList pos
              (if columnList = [] then pos else nodeEnd X (last columnList))
              hasDistinct columnList) p)"

definition parseColumnExprInterval :: "'x parsers \<Rightarrow> Pos \<Rightarrow> Lexer \<Rightarrow> 'x Expr res" where
  "parseColumnExprInterval R pos p =
     bind (consumeKeyword p ''INTERVAL'') (\<lambda>_ p1.
     bind (R (ParseExpr (PosOf p1)) p1) (\<lambda>columnExpr p2.
     bind (parseIdent p2) (\<lambda>ident p3.
       if ToUpper (Name ident) \<notin> set intervalType then Err (UnknownIntervalType (Name ident))
       else Ok (IntervalExpr pos columnExpr ident) p3)))"

text \<open>
  Modelled from the spec: \<open>parseIdentOrFunction\<close> is declared elsewhere in the package.
  The spec: a
  bare identifier, optionally immediately followed by a parenthesized argument list
  (function call), itself optionally followed by a second parenthesized argument list;
  the two lists are parsed by \<open>parseFunctionParams\<close>.
\<close>

definition parseIdentOrFunction :: "'x parsers \<Rightarrow> Pos \<Rightarrow> Lexer \<Rightarrow> 'x Expr res" where
  "parseIdentOrFunction R pos p =
     bind (parseIdent p) (\<lambda>ident p1.
       if matchTokenKind p1 ''('' then
         bind (R (ParseFunctionParams (PosOf p1)) p1) (\<lambda>params p2.
           Ok (FunctionExpr ident params) p2)
       else Ok (IdentExpr ident) p1)"

definition parseColumnArgList :: "'x parsers \<Rightarrow> Pos \<Rightarrow> Lexer \<Rightarrow> 'x Expr res" where
  "parseColumnArgList R pos p =
     bind (consumeTokenKind p ''('') (\<lambda>_ p1.
     bind (tryConsumeKeyword p1 ''DISTINCT'') (\<lambda>t p2.
       R (ColumnArgListLoop pos (t \<noteq> None) []) p2))"

definition columnArgListLoop ::
  "'x parsers \<Rightarrow> Pos \<Rightarrow> bool \<Rightarrow> 'x Expr list \<Rightarrow> Lexer \<Rightarrow> 'x Expr res" where
  "columnArgListLoop R pos isDistinct items p =
     (let finish = (\<lambda>items p'.
        bind (consumeTokenKind p' '')'') (\<lambda>_ p''.
          Ok (ColumnArgList pos (PosOf p') isDistinct items) p'')) in
      if \<not> isEOF p \<and> \<not> matchTokenKind p '')'' then
        bind (R (ParseExpr (PosOf p)) p) (\<lambda>item p1.
        bind (tryConsumeTokenKind p1 '','') (\<lambda>t p2.
          case t of
            None \<Rightarrow> finish (items @ [item]) p2
          | Some _ \<Rightarrow> R (ColumnArgListLoop pos isDistinct (items @ [item])) p2))
      else finish items p)"

definition parseFunctionParams :: "'x parsers \<Rightarrow> Pos \<Rightarrow> Lexer \<Rightarrow> 'x Expr res" where
  "parseFunctionParams R pos p =
     bind (consumeTokenKind p ''('') (\<lambda>_ p1.
     bind (R (ParseColumnExprListWithTerm '')'' (PosOf p1)) p1) (\<lambda>params p2.
     bind (consumeTokenKind p2 '')'') (\<lambda>_ p3.
       if matchTokenKind p3 ''('' then
         bind (R (ParseColumnArgList (PosOf p3)) p3) (\<lambda>columnArgList p4.
           Ok (ParamExprList pos (PosOf p2) params (Some columnArgList)) p4)
       else Ok (ParamExprList pos (PosOf p2) params None) p3)))"

definition parseArrayParams :: "'x parsers \<Rightarrow> Pos \<Rightarrow> Lexer \<Rightarrow> 'x Expr res" where
  "parseArrayParams R pos p =
     bind (consumeTokenKind p ''['') (\<lambda>_ p1.
     bind (R (ParseColumnExprListWithTerm '']'' (PosOf p1)) p1) (\<lambda>params p2.
     bind (consumeTokenKind p2 '']'') (\<lambda>_ p3.
       Ok (ArrayParamList pos (PosOf p2) params) p3)))"

definition parseColumnsExpr :: "'x parsers \<Rightarrow> Pos \<Rightarrow> Lexer \<Rightarrow> 'x Expr res" where
  "parseColumnsExpr R pos p = R (ParseExpr pos) p"

definition parseColumnCaseExpr :: "'x parsers \<Rightarrow> Pos \<Rightarrow> Lexer \<Rightarrow> 'x Expr res" where
  "parseColumnCaseExpr R pos p =
     bind (consumeKeyword p ''CASE'') (\<lambda>_ p1.
     bind (R (ParseExpr (PosOf p1)) p1) (\<lambda>expr p2.
       R (CaseWhenLoop pos expr []) p2))"

definition caseWhenLoop ::
  "'x parsers \<Rightarrow> Pos \<Rightarrow> 'x Expr \<Rightarrow> (Pos \<times> Pos \<times> 'x Expr \<times> 'x Expr) list \<Rightarrow> Lexer \<Rightarrow> 'x Expr res" where
  "caseWhenLoop R pos expr whenExprs p =
     (if matchKeyword p ''WHEN'' then
        bind (advance p) (\<lambda>_ p1.
        bind (R (ParseExpr (PosOf p1)) p1) (\<lambda>whenCondition p2.
        bind (consumeKeyword p2 ''THEN'') (\<lambda>_ p3.
        bind (R (ParseExpr (PosOf p3)) p3) (\<lambda>thenCondition p4.
          R (CaseWhenLoop pos expr
               (whenExprs @ [(PosOf p, PosOf p2, whenCondition, thenCondition)])) p4))))
      else
        bind (tryConsumeKeyword p ''ELSE'') (\<lambda>elseToken p1.
          case elseToken of
            None \<Rightarrow>
              bind (consumeKeyword p1 ''END'') (\<lambda>_ p2.
                Ok (CaseExpr pos expr whenExprs 0 None) p2)
          | Some tk \<Rightarrow>
              bind (R (ParseExpr (PosOf p1)) p1) (\<lambda>elseExpr p2.
              bind (consumeKeyword p2 ''END'') (\<lambda>_ p3.
                Ok (CaseExpr pos expr whenExprs (Pos tk) (Some elseExpr)) p3))))"

subsection \<open>Types\<close>

definition parseNestedType :: "'x external \<Rightarrow> Ident \<Rightarrow> Pos \<Rightarrow> Lexer \<Rightarrow> 'x Expr res" where
  "parseNestedType X name pos p =
     bind (parseTableColumns X p) (\<lambda>columns p1.
     bind (consumeTokenKind p1 '')'') (\<lambda>_ p2.
       Ok (NestedTypeExpr pos (PosOf p1) name columns) p2))"

definition parseColumnType ::
  "'x external \<Rightarrow> 'x parsers \<Rightarrow> Pos \<Rightarrow> Lexer \<Rightarrow> 'x Expr res" where
  "parseColumnType X R pos p =
     bind (parseIdent p) (\<lambda>ident p1.
     bind (tryConsumeTokenKind p1 ''('') (\<lambda>t p2.
       case t of
         None \<Rightarrow> Ok (ScalarTypeExpr ident) p2
       | Some _ \<Rightarrow>
           if matchTokenKind p2 TokenIdent then
             (if Name ident = ''Nested'' then parseNestedType X ident (PosOf p2) p2
              else R (ParseComplexType ident (PosOf p2)) p2)
           else if matchTokenKind p2 TokenString then
             (case peekToken p2 of
                None \<Rightarrow> Hang
              | Some (Inl err, p3) \<Rightarrow> R (ParseColumnTypeWithParams ident (PosOf p3)) p3
              | Some (Inr None, p3) \<Rightarrow> Panic
              | Some (Inr (Some peek), p3) \<Rightarrow>
                  if Kind peek = ''='' then R (ParseEnumExpr (PosOf p3)) p3
                  else R (ParseColumnTypeWithParams ident (PosOf p3)) p3)
           else if matchTokenKind p2 TokenInt then
             R (ParseColumnTypeWithParams ident (PosOf p2)) p2
           else Err (UnexpectedTokenKind (lastTokenKind p2))))"

definition parseComplexType :: "'x parsers \<Rightarrow> Ident \<Rightarrow> Pos \<Rightarrow> Lexer \<Rightarrow> 'x Expr res" where
  "parseComplexType R name pos p = R (ComplexTypeLoop name pos []) p"

definition complexTypeLoop ::
  "'x parsers \<Rightarrow> Ident \<Rightarrow> Pos \<Rightarrow> 'x Expr list \<Rightarrow> Lexer \<Rightarrow> 'x Expr res" where
  "complexTypeLoop R name pos subTypes p =
     (let finish = (\<lambda>subTypes p'.
        bind (consumeTokenKind p' '')'') (\<lambda>_ p''.
          Ok (ComplexTypeExpr pos (PosOf p') name subTypes) p'')) in
      if \<not> isEOF p \<and> \<not> matchTokenKind p '')'' then
        bind (R (ParseColumnType (PosOf p)) p) (\<lambda>subExpr p1.
        bind (tryConsumeTokenKind p1 '','') (\<lambda>t p2.
          case t of
            None \<Rightarrow> finish (subTypes @ [subExpr]) p2
          | Some _ \<Rightarrow> R (ComplexTypeLoop name pos (subTypes @ [subExpr])) p2))
      else finish subTypes p)"

definition parseEnumValueExpr :: "Pos \<Rightarrow> Lexer \<Rightarrow> (StringLiteral \<times> NumberLiteral) res" where
  "parseEnumValueExpr pos p =
     bind (consumeTokenKind p TokenString) (\<lambda>_ p1.
     bind (parseString pos p1) (\<lambda>name p2.
     bind (consumeTokenKind p2 ''='') (\<lambda>_ p3.
     bind (parseNumber (PosOf p3) p3) (\<lambda>v p4.
       Ok (name, v) p4))))"

definition parseEnumExpr :: "'x parsers \<Rightarrow> Pos \<Rightarrow> Lexer \<Rightarrow> 'x Expr res" where
  "parseEnumExpr R pos p = R (EnumLoop pos []) p"

text \<open>
  The test \<open>enumValueExpr == nil\<close> of the loop is never true after a successful
  \<open>parseEnumValueExpr\<close>. \<open>ListEnd\<close> keeps Go's zero value when the list is empty.
\<close>

definition enumLoop ::
  "'x parsers \<Rightarrow> Pos \<Rightarrow> (StringLiteral \<times> NumberLiteral) list \<Rightarrow> Lexer \<Rightarrow> 'x Expr res" where
  "enumLoop R pos enums p =
     (let finish = (\<lambda>enums p'.
        bind (consumeTokenKind p' '')'') (\<lambda>_ p''.
          Ok (EnumValueExprList pos (if enums = [] then 0 else NumEnd (snd (last enums))) enums) p'')) in
      if \<not> isEOF p \<and> \<not> matchTokenKind p '')'' then
        bind (parseEnumValueExpr (PosOf p) p) (\<lambda>enumValueExpr p1.
        bind (tryConsumeTokenKind p1 '','') (\<lambda>t p2.
          case t of
            None \<Rightarrow> finish (enums @ [enumValueExpr]) p2
          | Some _ \<Rightarrow> R (EnumLoop pos (enums @ [enumValueExpr])) p2))
      else finish enums p)"

definition parseColumnTypeWithParams ::
  "'x parsers \<Rightarrow> Ident \<Rightarrow> Pos \<Rightarrow> Lexer \<Rightarrow> 'x Expr res" where
  "parseColumnTypeWithParams R name pos p =
     bind (parseLiteral pos p) (\<lambda>param p1. R (TypeParamsLoop name pos [param]) p1)"

definition typeParamsLoop ::
  "'x parsers \<Rightarrow> Ident \<Rightarrow> Pos \<Rightarrow> 'x Expr list \<Rightarrow> Lexer \<Rightarrow> 'x Expr res" where
  "typeParamsLoop R name pos params p =
     (let finish = (\<lambda>p'.
        bind (consumeTokenKind p' '')'') (\<lambda>_ p''.
          Ok (TypeWithParamsExpr name pos (PosOf p') params) p'')) in
      if \<not> isEOF p then
        bind (tryConsumeTokenKind p '','') (\<lambda>t p1.
          case t of
            None \<Rightarrow> finish p1
          | Some _ \<Rightarrow>
              bind (parseLiteral (PosOf p1) p1) (\<lambda>param p2.
                R (TypeParamsLoop name pos (params @ [param])) p2))
      else finish p)"

subsection \<open>Closing the cycle\<close>

definition step :: "'x external \<Rightarrow> 'x parsers \<Rightarrow> 'x parsers" where
  "step X R c p =
     (case c of
        ParseExpr pos \<Rightarrow> parseExpr R pos p
      | ParseOrExpr pos \<Rightarrow> parseOrExpr R pos p
      | OrLoop expr \<Rightarrow> orLoop R expr p
      | ParseAndExpr pos \<Rightarrow> parseAndExpr R pos p
      | AndLoop expr \<Rightarrow> andLoop R expr p
      | ParseNotExpr pos \<Rightarrow> parseNotExpr R pos p
      | ParseIsOrNotNull pos \<Rightarrow> parseIsOrNotNull R pos p
      | ParseCompareExpr pos \<Rightarrow> parseCompareExpr R pos p
      | ParseAddSubExpr pos \<Rightarrow> parseAddSubExpr R pos p
      | AddSubLoop expr \<Rightarrow> addSubLoop R expr p
      | ParseTernaryExpr condition \<Rightarrow> parseTernaryExpr R condition p
      | ParseMulDivModExpr pos \<Rightarrow> parseMulDivModExpr R pos p
      | MulDivModLoop expr \<Rightarrow> mulDivModLoop R expr p
      | ParseColumnExtractExpr pos \<Rightarrow> parseColumnExtractExpr R pos p
      | ParseUnaryExpr pos \<Rightarrow> parseUnaryExpr R pos p
      | ParseColumnExpr pos \<Rightarrow> parseColumnExpr X R pos p
      | ParseColumnCastExpr pos \<Rightarrow> parseColumnCastExpr R pos p
      | ParseColumnExprListWithTerm term pos \<Rightarrow> parseColumnExprListWithTerm R term pos p
      | ColumnExprListLoop term pos d items \<Rightarrow> columnExprListLoop X R term pos d items p
      | ParseColumnExprInterval pos \<Rightarrow> parseColumnExprInterval R pos p
      | ParseIdentOrFunction pos \<Rightarrow> parseIdentOrFunction R pos p
      | ParseColumnArgList pos \<Rightarrow> parseColumnArgList R pos p
      | ColumnArgListLoop pos d items \<Rightarrow> columnArgListLoop R pos d items p
      | ParseFunctionParams pos \<Rightarrow> parseFunctionParams R pos p
      | ParseArrayParams pos \<Rightarrow> parseArrayParams R pos p
      | ParseColumnsExpr pos \<Rightarrow> parseColumnsExpr R pos p
      | ParseColumnCaseExpr pos \<Rightarrow> parseColumnCaseExpr R pos p
      | CaseWhenLoop pos expr whens \<Rightarrow> caseWhenLoop R pos expr whens p
      | ParseColumnType pos \<Rightarrow> parseColumnType X R pos p
      | ParseComplexType name pos \<Rightarrow> parseComplexType R name pos p
      | ComplexTypeLoop name pos subTypes \<Rightarrow> complexTypeLoop R name pos subTypes p
      | ParseEnumExpr pos \<Rightarrow> parseEnumExpr R pos p
      | EnumLoop pos enums \<Rightarrow> enumLoop R pos enums p
      | ParseColumnTypeWithParams name pos \<Rightarrow> parseColumnTypeWithParams R name pos p
      | TypeParamsLoop name pos params \<Rightarrow> typeParamsLoop R name pos params p)"

text \<open>
  \<open>run X n c p\<close> is the call \<open>c\<close> on the parser \<open>p\<close>, with at most \<open>n\<close> calls and loop rounds
  nested in each other; \<open>OutOfFuel\<close> is that \<open>n\<close> was too small.
\<close>

primrec run :: "'x external \<Rightarrow> nat \<Rightarrow> 'x parsers" where
  "run X 0 = (\<lambda>c p. OutOfFuel)"
| "run X (Suc n) = step X (run X n)"


subsection \<open>Fuel\<close>

text \<open>
  A result is below another one when it is \<open>OutOfFuel\<close> or equal to it. More fuel gives a
  result above the one of less fuel (\<open>run_mono\<close> below): what \<open>run\<close> returns for some
  bound, other than \<open>OutOfFuel\<close>, it returns for every larger bound.
\<close>

definition le_res :: "'a res \<Rightarrow> 'a res \<Rightarrow> bool" where
  "le_res r r' \<longleftrightarrow> r = OutOfFuel \<or> r = r'"

definition le_parsers :: "'x parsers \<Rightarrow> 'x parsers \<Rightarrow> bool" where
  "le_parsers R R' \<longleftrightarrow> (\<forall>c p. le_res (R c p) (R' c p))"

text \<open>
  Modelled from the spec: the callers of the grammar are elsewhere in the package. The
  spec describes the grammar driver as the scanner plus a cache of one token, so an
  input is handed to a parse function by creating the scanner on the buffer and reading
  the first token into the cache; \<open>c\<close> is the call, given the position of that token.
\<close>

definition start :: "string \<Rightarrow> unit res" where
  "start buf = advance (NewLexer buf)"

definition parseInput ::
  "'x external \<Rightarrow> nat \<Rightarrow> (Pos \<Rightarrow> 'x call) \<Rightarrow> string \<Rightarrow> 'x Expr res" where
  "parseInput X n c buf = bind (start buf) (\<lambda>_ p. run X n (c (PosOf p)) p)"

text \<open>
  External parsers for the examples: they fail, and no example reaches them. \<open>nodeEnd\<close>
  is not reached either.
\<close>

definition noExternal :: "unit external" where
  "noExternal =
     \<lparr>parseSelectQuery = (\<lambda>pos p. Err (ExternalError ''parseSelectQuery'')),
      parseTableColumns = (\<lambda>p. Err (ExternalError ''parseTableColumns'')),
      nodeEnd = (\<lambda>e. 0)\<rparr>"

text \<open>Short forms for the tokens and leaves of the examples.\<close>

definition mkToken :: "Pos \<Rightarrow> Pos \<Rightarrow> TokenKind \<Rightarrow> string \<Rightarrow> Token" where
  "mkToken a b k s = \<lparr>Pos = a, End = b, Kind = k, String = s, Base = 0, Unquoted = False\<rparr>"

definition scanner_at :: "string \<Rightarrow> nat \<Rightarrow> Token option \<Rightarrow> Lexer" where
  "scanner_at buf k t = \<lparr>input = buf, current = k, lastToken = t\<rparr>"

definition mkIdent :: "Pos \<Rightarrow> Pos \<Rightarrow> string \<Rightarrow> 'x Expr" where
  "mkIdent a b s = IdentExpr \<lparr>NamePos = a, NameEnd = b, Name = s\<rparr>"

definition mkNumber :: "Pos \<Rightarrow> Pos \<Rightarrow> string \<Rightarrow> 'x Expr" where
  "mkNumber a b s = NumberExpr \<lparr>NumPos = a, NumEnd = b, NumLiteral = s, NumBase = 10\<rparr>"

subsection \<open>Operators\<close>



subsection \<open>Levels of the grammar\<close>

text \<open>
  The nodes that a level of the grammar can return: \<open>andLevel X e\<close> is that some call of
  \<open>parseAndExpr\<close> returns the node \<open>e\<close>, and likewise for \<open>parseNotExpr\<close> and
  \<open>parseMulDivModExpr\<close>.
\<close>

definition andLevel :: "'x external \<Rightarrow> 'x Expr \<Rightarrow> bool" where
  "andLevel X e \<longleftrightarrow> (\<exists>n pos p p'. run X n (ParseAndExpr pos) p = Ok e p')"

definition notLevel :: "'x external \<Rightarrow> 'x Expr \<Rightarrow> bool" where
  "notLevel X e \<longleftrightarrow> (\<exists>n pos p p'. run X n (ParseNotExpr pos) p = Ok e p')"

definition mulDivModLevel :: "'x external \<Rightarrow> 'x Expr \<Rightarrow> bool" where
  "mulDivModLevel X e \<longleftrightarrow> (\<exists>n pos p p'. run X n (ParseMulDivModExpr pos) p = Ok e p')"


section \<open>Properties of the scanner\<close>

lemmas TokenKind_defs =
  TokenEOF_def TokenIdent_def TokenKeyword_def TokenInt_def TokenFloat_def
  TokenString_def TokenCast_def TokenArrow_def

lemmas scanner_defs =
  consumeToken_def peekToken_def NewLexer_def skipSpace.simps skipComments.simps
  multiLineCommentLoop.simps consumeMultiLineComment_def consumeSingleLineComment_def
  isEOF_def peekN_def peekOk_def peekIs_def scanToken_def consumeNumber_def numberLoop.simps
  IsSpace_def byte_def IsDigit_def IsHexDigit_def IsIdentStart_def IsIdentPart_def
  skipN_def slice_def Let_def TokenKind_defs afterSwitch_def identOrSymbol_def
  consumeIdent_def scanWhile.simps isKeyword_def keywords_table_def ToUpper_def upperChar_def
  consumeString_def twoCharToken_def



lemma skipSpace_input: "input (skipSpace l) = input l"
  by (induction l rule: skipSpace.induct) (subst skipSpace.simps, simp split: prod.splits)

lemma skipSpace_lastToken: "lastToken (skipSpace l) = lastToken l"
  by (induction l rule: skipSpace.induct) (subst skipSpace.simps, simp split: prod.splits)

lemma skipComments_input: "skipComments l = Some l' \<Longrightarrow> input l' = input l"
proof (induction rule: skipComments.raw_induct [rotated 1, consumes 1])
  case (1 sc l l')
  then show ?case
    by (auto simp: consumeSingleLineComment_def consumeMultiLineComment_def skipN_def Let_def
        split: if_splits option.splits Option.bind_splits)
qed

lemma skipComments_lastToken: "skipComments l = Some l' \<Longrightarrow> lastToken l' = lastToken l"
proof (induction rule: skipComments.raw_induct [rotated 1, consumes 1])
  case (1 sc l l')
  then show ?case
    by (auto simp: consumeSingleLineComment_def consumeMultiLineComment_def skipN_def Let_def
        split: if_splits option.splits Option.bind_splits)
qed

lemma consumeNumber_input: "input (snd (consumeNumber l)) = input l"
  by (simp add: consumeNumber_def skipN_def Let_def split: option.split sum.split)

lemma consumeIdent_input: "input (snd (consumeIdent l)) = input l"
  by (simp add: consumeIdent_def skipN_def Let_def split: option.split)

lemma consumeString_input: "input (snd (consumeString l q)) = input l"
  by (simp add: consumeString_def skipN_def Let_def)

lemma identOrSymbol_input: "input (snd (identOrSymbol l c)) = input l"
  by (simp add: identOrSymbol_def skipN_def consumeIdent_input)

lemma afterSwitch_input: "input (snd (afterSwitch l c)) = input l"
  by (simp add: afterSwitch_def identOrSymbol_input split: option.split)

lemma twoCharToken_input: "input (snd (twoCharToken l k)) = input l"
  by (simp add: twoCharToken_def skipN_def)

lemma scanToken_input: "input (snd (scanToken l)) = input l"
  by (simp add: scanToken_def consumeNumber_input consumeIdent_input consumeString_input
      afterSwitch_input twoCharToken_input split: option.split)

lemma consumeToken_input: "consumeToken l = Some (e, l') \<Longrightarrow> input l' = input l"
proof -
  assume c: "consumeToken l = Some (e, l')"
  then obtain l3 where sc: "skipComments ((skipSpace l)\<lparr>lastToken := None\<rparr>) = Some l3"
    by (auto simp: consumeToken_def Let_def split: option.splits)
  from skipComments_input [OF sc] have i3: "input (skipSpace l3) = input l"
    by (simp add: skipSpace_input)
  show ?thesis
  proof (cases "isEOF (skipSpace l3)")
    case True
    with c sc i3 show ?thesis by (simp add: consumeToken_def Let_def)
  next
    case False
    with c sc have "scanToken (skipSpace l3) = (e, l')" by (simp add: consumeToken_def Let_def)
    with scanToken_input [of "skipSpace l3"] i3 show ?thesis by simp
  qed
qed

lemma peekToken_restores: "peekToken l = Some (Inr t, l') \<Longrightarrow> l' = l"
  by (auto simp: peekToken_def dest: consumeToken_input split: option.splits prod.splits)

lemma multiLineCommentLoop_Some:
  "multiLineCommentLoop l i = Some j \<Longrightarrow>
     isEOF l \<or> (\<exists>k\<ge>i. peekOk l (k + 1) \<and> peekN l k = Some (CHR ''*'') \<and> peekN l (k + 1) = Some (CHR ''/''))"
proof (induction rule: multiLineCommentLoop.raw_induct [rotated 1, consumes 1])
  case (1 lp l i j)
  show ?case
  proof (cases "isEOF l \<or> (peekOk l (i + 1) \<and> peekN l i = Some (CHR ''*'') \<and> peekN l (i + 1) = Some (CHR ''/''))")
    case True
    then show ?thesis by auto
  next
    case False
    with 1(2) have "lp l (i + 1) = Some j" by (auto split: if_splits)
    from 1(1) [OF this] False obtain k where
      k: "i + 1 \<le> k" "peekOk l (k + 1)" "peekN l k = Some (CHR ''*'')" "peekN l (k + 1) = Some (CHR ''/'')"
      by blast
    from k(1) have "i \<le> k" by simp
    with k show ?thesis by blast
  qed
qed

lemma multiLineCommentLoop_None:
  assumes "\<not> isEOF l"
    and "\<And>k. k \<ge> i \<Longrightarrow>
           \<not> (peekOk l (k + 1) \<and> peekN l k = Some (CHR ''*'') \<and> peekN l (k + 1) = Some (CHR ''/''))"
  shows "multiLineCommentLoop l i = None"
proof (cases "multiLineCommentLoop l i")
  case (Some j)
  from multiLineCommentLoop_Some [OF this] assms show ?thesis by blast
qed simp

subsection \<open>A failed scan leaves the cache empty\<close>

lemma consumeNumber_error_keeps: "fst (consumeNumber l) = Some e \<Longrightarrow> snd (consumeNumber l) = l"
proof -
  have "fst (consumeNumber l) \<noteq> None \<longrightarrow> snd (consumeNumber l) = l"
    by (simp add: consumeNumber_def Let_def split: option.split sum.split)
  then show "fst (consumeNumber l) = Some e \<Longrightarrow> snd (consumeNumber l) = l" by simp
qed

lemma consumeIdent_error_cache:
  "fst (consumeIdent l) = Some e \<Longrightarrow> lastToken (snd (consumeIdent l)) = lastToken l"
  by (auto simp: consumeIdent_def Let_def skipN_def split: option.splits if_splits)

lemma consumeString_error_keeps: "fst (consumeString l q) = Some e \<Longrightarrow> snd (consumeString l q) = l"
  by (auto simp: consumeString_def Let_def split: if_splits)

lemma afterSwitch_error_cache:
  "fst (afterSwitch l c) = Some e \<Longrightarrow> lastToken (snd (afterSwitch l c)) = lastToken l"
  by (auto simp: afterSwitch_def identOrSymbol_def consumeIdent_error_cache
      split: option.splits if_splits)

lemma scanToken_error_cache:
  assumes "fst (scanToken l) = Some e"
  shows "lastToken (snd (scanToken l)) = lastToken l"
proof (cases "peekN l 0")
  case None
  then show ?thesis by (simp add: scanToken_def)
next
  case (Some c)
  have "scanToken l = consumeNumber l \<or> scanToken l = consumeIdent l
     \<or> scanToken l = consumeString l True \<or> scanToken l = consumeString l False
     \<or> scanToken l = afterSwitch l c
     \<or> fst (scanToken l) = None
     \<or> snd (scanToken l) = l"
    unfolding scanToken_def Some option.case
    by (simp add: twoCharToken_def split: option.split)
  with assms show ?thesis
    using consumeNumber_error_keeps [of l e] consumeIdent_error_cache [of l e]
      consumeString_error_keeps [of l True e] consumeString_error_keeps [of l False e]
      afterSwitch_error_cache [of l c e]
    by auto
qed

lemma failed_scan_clears_cache:
  assumes "consumeToken l = Some (Some e, l')"
  shows "lastToken l' = None"
proof -
  from assms obtain l3 where sc: "skipComments ((skipSpace l)\<lparr>lastToken := None\<rparr>) = Some l3"
    by (auto simp: consumeToken_def Let_def split: option.splits)
  from skipComments_lastToken [OF sc] have n: "lastToken (skipSpace l3) = None"
    by (simp add: skipSpace_lastToken)
  from assms sc have s: "scanToken (skipSpace l3) = (Some e, l')"
    by (auto simp: consumeToken_def Let_def split: if_splits)
  with scanToken_error_cache [of "skipSpace l3" e] n show ?thesis by simp
qed

lemma failed_peek_clears_cache:
  "peekToken l = Some (Inl e, l') \<Longrightarrow> lastToken l' = None"
  by (auto simp: peekToken_def dest: failed_scan_clears_cache split: option.splits prod.splits)

subsection \<open>The checks on \<open>.\<close> are never reached with a cached token\<close>

lemma numberLoop_error:
  "numberLoop l base i k e h = Inl err \<Longrightarrow> err = InvalidNumber \<or> err = ExponentWithoutDigit"
proof (induction l base i k e h rule: numberLoop.induct)
  case (1 l base i tokenKind hasExp hasNumberPart)
  from "1.prems" show ?case
    apply (subst (asm) numberLoop.simps)
    apply (auto simp: Let_def split: option.splits if_splits dest: "1.IH")
    done
qed

lemma consumeNumber_no_dot_error: "fst (consumeNumber l) = Some e \<Longrightarrow> \<not> isDotError e"
  by (auto simp: consumeNumber_def Let_def split: option.splits sum.splits if_splits
      dest!: numberLoop_error)

lemma consumeIdent_no_dot_error: "fst (consumeIdent l) = Some e \<Longrightarrow> \<not> isDotError e"
  by (auto simp: consumeIdent_def Let_def split: option.splits if_splits)

lemma consumeString_no_dot_error: "fst (consumeString l q) = Some e \<Longrightarrow> \<not> isDotError e"
  by (auto simp: consumeString_def Let_def split: if_splits)

lemma afterSwitch_no_dot_error:
  "lastToken l = None \<Longrightarrow> fst (afterSwitch l c) = Some e \<Longrightarrow> \<not> isDotError e"
  by (auto simp: afterSwitch_def identOrSymbol_def dest: consumeIdent_no_dot_error split: if_splits)

lemma scanToken_no_dot_error:
  assumes "lastToken l = None" and "fst (scanToken l) = Some e"
  shows "\<not> isDotError e"
proof (cases "peekN l 0")
  case None
  with assms show ?thesis by (simp add: scanToken_def)
next
  case (Some c)
  from assms(2) have
    "fst (consumeNumber l) = Some e \<or> fst (consumeIdent l) = Some e
     \<or> fst (consumeString l True) = Some e \<or> fst (consumeString l False) = Some e
     \<or> fst (afterSwitch l c) = Some e"
    unfolding scanToken_def Some option.case assms(1)
    by (simp add: twoCharToken_def split: if_splits)
  with assms(1) show ?thesis
    using consumeNumber_no_dot_error consumeIdent_no_dot_error consumeString_no_dot_error
      afterSwitch_no_dot_error by blast
qed

lemma consumeToken_no_dot_error:
  assumes "consumeToken l = Some (Some e, l')"
  shows "\<not> isDotError e"
proof -
  from assms obtain l3 where sc: "skipComments ((skipSpace l)\<lparr>lastToken := None\<rparr>) = Some l3"
    by (auto simp: consumeToken_def Let_def split: option.splits)
  from skipComments_lastToken [OF sc] have n: "lastToken (skipSpace l3) = None"
    by (simp add: skipSpace_lastToken)
  from assms sc have "fst (scanToken (skipSpace l3)) = Some e"
    by (auto simp: consumeToken_def Let_def split: if_splits)
  with n show ?thesis by (rule scanToken_no_dot_error)
qed

subsection \<open>A sign before a digit starts a number\<close>

lemma numberLoop_kind:
  "numberLoop l base i k e h = Inr (j, k', h') \<Longrightarrow> k' = k \<or> k' = TokenFloat"
proof (induction l base i k e h rule: numberLoop.induct)
  case (1 l base i tokenKind hasExp hasNumberPart)
  from "1.prems" show ?case
    apply (subst (asm) numberLoop.simps)
    apply (auto simp: Let_def split: option.splits if_splits dest: "1.IH")
    done
qed

lemma consumeNumber_kind:
  assumes "consumeNumber l = (None, l')"
  shows "\<exists>t. lastToken l' = Some t \<and> (Kind t = TokenInt \<or> Kind t = TokenFloat)"
proof (cases "peekN l 0")
  case None
  with assms show ?thesis by (simp add: consumeNumber_def)
next
  case (Some c0)
  let ?hex = "c0 = CHR ''0'' \<and> peekIs l 1 (\<lambda>d. d = CHR ''x'')"
  let ?i0 = "if c0 = CHR ''+'' \<or> c0 = CHR ''-'' then 1 else (0::nat)"
  let ?r = "numberLoop l (if ?hex then 16 else 10) (if ?hex then ?i0 + 2 else ?i0) TokenInt False False"
  show ?thesis
  proof (cases ?r)
    case (Inl e)
    with assms Some show ?thesis by (simp add: consumeNumber_def Let_def)
  next
    case (Inr res)
    obtain i k h where res: "res = (i, k, h)" by (cases res)
    from numberLoop_kind [OF Inr [unfolded res]] have "k = TokenInt \<or> k = TokenFloat" .
    moreover from assms Some Inr res have "\<exists>t. lastToken l' = Some t \<and> Kind t = k"
      by (auto simp: consumeNumber_def Let_def skipN_def split: if_splits)
    ultimately show ?thesis by auto
  qed
qed

lemma sign_before_digit_is_number:
  assumes "peekN l 0 = Some c" and "c = CHR ''+'' \<or> c = CHR ''-''" and "peekIs l 1 IsDigit"
    and "scanToken l = (None, l')"
  shows "\<exists>t. lastToken l' = Some t \<and> (Kind t = TokenInt \<or> Kind t = TokenFloat)"
proof -
  from assms(1-3) have "scanToken l = consumeNumber l"
    by (auto simp: scanToken_def)
  with assms(4) show ?thesis by (simp add: consumeNumber_kind)
qed



section \<open>More fuel keeps the result\<close>

lemma bind_simps [simp]:
  "bind (Ok v p) f = f v p" "bind (Err e) f = Err e" "bind Panic f = Panic"
  "bind Hang f = Hang" "bind OutOfFuel f = OutOfFuel"
  by (simp_all add: bind_def)

lemma bind_cong [cong]: "r = r' \<Longrightarrow> bind r f = bind r' f"
  by simp

lemmas opType_defs =
  opTypeAnd_def opTypeOr_def opTypePlus_def opTypeMinus_def opTypeMul_def opTypeDiv_def
  opTypeMod_def opTypeEQ_def opTypeLT_def opTypeLE_def opTypeGE_def opTypeGT_def
  opTypeDoubleEQ_def opTypeNE_def opTypeQuery_def


lemma le_res_refl: "le_res r r"
  by (simp add: le_res_def)

lemma le_res_bind:
  assumes "le_res r r'" and "\<And>v q. le_res (f v q) (f' v q)"
  shows "le_res (bind r f) (bind r' f')"
proof (cases "r = OutOfFuel")
  case True
  then show ?thesis by (simp add: le_res_def)
next
  case False
  with assms(1) have "r' = r" by (simp add: le_res_def)
  then show ?thesis using assms(2) by (cases r) (simp_all add: le_res_refl)
qed

lemma le_res_if:
  "(c \<Longrightarrow> le_res a a') \<Longrightarrow> (\<not> c \<Longrightarrow> le_res b b')
    \<Longrightarrow> le_res (if c then a else b) (if c then a' else b')"
  by simp

lemma le_res_case_option:
  "le_res a a' \<Longrightarrow> (\<And>x. le_res (b x) (b' x))
    \<Longrightarrow> le_res (case t of None \<Rightarrow> a | Some x \<Rightarrow> b x) (case t of None \<Rightarrow> a' | Some x \<Rightarrow> b' x)"
  by (cases t) simp_all

lemma le_res_case_prod:
  "(\<And>x y. le_res (b x y) (b' x y))
    \<Longrightarrow> le_res (case t of (x, y) \<Rightarrow> b x y) (case t of (x, y) \<Rightarrow> b' x y)"
  by (cases t) simp_all

lemma le_res_case_sum:
  "(\<And>x. le_res (a x) (a' x)) \<Longrightarrow> (\<And>y. le_res (b y) (b' y))
    \<Longrightarrow> le_res (case t of Inl x \<Rightarrow> a x | Inr y \<Rightarrow> b y) (case t of Inl x \<Rightarrow> a' x | Inr y \<Rightarrow> b' y)"
  by (cases t) simp_all

lemma le_parsersD: "le_parsers R R' \<Longrightarrow> le_res (R c p) (R' c p)"
  by (simp add: le_parsers_def)

lemmas le_res_intros =
  le_res_refl le_res_bind le_res_if le_res_case_option le_res_case_prod le_res_case_sum

lemma parseExpr_mono:
  "le_parsers R R' \<Longrightarrow> le_res (parseExpr R pos p) (parseExpr R' pos p)"
  unfolding parseExpr_def Let_def by (intro le_res_intros le_parsersD [of R R'])

lemma parseOrExpr_mono:
  "le_parsers R R' \<Longrightarrow> le_res (parseOrExpr R pos p) (parseOrExpr R' pos p)"
  unfolding parseOrExpr_def Let_def by (intro le_res_intros le_parsersD [of R R'])

lemma orLoop_mono:
  "le_parsers R R' \<Longrightarrow> le_res (orLoop R expr p) (orLoop R' expr p)"
  unfolding orLoop_def Let_def by (intro le_res_intros le_parsersD [of R R'])

lemma parseAndExpr_mono:
  "le_parsers R R' \<Longrightarrow> le_res (parseAndExpr R pos p) (parseAndExpr R' pos p)"
  unfolding parseAndExpr_def Let_def by (intro le_res_intros le_parsersD [of R R'])

lemma andLoop_mono:
  "le_parsers R R' \<Longrightarrow> le_res (andLoop R expr p) (andLoop R' expr p)"
  unfolding andLoop_def Let_def by (intro le_res_intros le_parsersD [of R R'])

lemma parseNotExpr_mono:
  "le_parsers R R' \<Longrightarrow> le_res (parseNotExpr R pos p) (parseNotExpr R' pos p)"
  unfolding parseNotExpr_def Let_def by (intro le_res_intros le_parsersD [of R R'])

lemma parseIsOrNotNull_mono:
  "le_parsers R R' \<Longrightarrow> le_res (parseIsOrNotNull R pos p) (parseIsOrNotNull R' pos p)"
  unfolding parseIsOrNotNull_def Let_def by (intro le_res_intros le_parsersD [of R R'])

lemma compareOperand_mono:
  "le_parsers R R' \<Longrightarrow> le_res (compareOperand R expr hasNot hasGlobal p) (compareOperand R' expr hasNot hasGlobal p)"
  unfolding compareOperand_def Let_def by (intro le_res_intros le_parsersD [of R R'])

lemma parseCompareExpr_mono:
  "le_parsers R R' \<Longrightarrow> le_res (parseCompareExpr R pos p) (parseCompareExpr R' pos p)"
  unfolding parseCompareExpr_def compareOperand_def Let_def by (intro le_res_intros le_parsersD [of R R'])

lemma parseAddSubExpr_mono:
  "le_parsers R R' \<Longrightarrow> le_res (parseAddSubExpr R pos p) (parseAddSubExpr R' pos p)"
  unfolding parseAddSubExpr_def Let_def by (intro le_res_intros le_parsersD [of R R'])

lemma addSubLoop_mono:
  "le_parsers R R' \<Longrightarrow> le_res (addSubLoop R expr p) (addSubLoop R' expr p)"
  unfolding addSubLoop_def Let_def by (intro le_res_intros le_parsersD [of R R'])

lemma parseTernaryExpr_mono:
  "le_parsers R R' \<Longrightarrow> le_res (parseTernaryExpr R condition p) (parseTernaryExpr R' condition p)"
  unfolding parseTernaryExpr_def Let_def by (intro le_res_intros le_parsersD [of R R'])

lemma parseMulDivModExpr_mono:
  "le_parsers R R' \<Longrightarrow> le_res (parseMulDivModExpr R pos p) (parseMulDivModExpr R' pos p)"
  unfolding parseMulDivModExpr_def Let_def by (intro le_res_intros le_parsersD [of R R'])

lemma mulDivModLoop_mono:
  "le_parsers R R' \<Longrightarrow> le_res (mulDivModLoop R expr p) (mulDivModLoop R' expr p)"
  unfolding mulDivModLoop_def Let_def by (intro le_res_intros le_parsersD [of R R'])

lemma parseColumnExtractExpr_mono:
  "le_parsers R R' \<Longrightarrow> le_res (parseColumnExtractExpr R pos p) (parseColumnExtractExpr R' pos p)"
  unfolding parseColumnExtractExpr_def Let_def by (intro le_res_intros le_parsersD [of R R'])

lemma parseUnaryExpr_mono:
  "le_parsers R R' \<Longrightarrow> le_res (parseUnaryExpr R pos p) (parseUnaryExpr R' pos p)"
  unfolding parseUnaryExpr_def Let_def by (intro le_res_intros le_parsersD [of R R'])

lemma parseColumnExpr_mono:
  "le_parsers R R' \<Longrightarrow> le_res (parseColumnExpr X R pos p) (parseColumnExpr X R' pos p)"
  unfolding parseColumnExpr_def Let_def by (intro le_res_intros le_parsersD [of R R'])

lemma parseColumnCastExpr_mono:
  "le_parsers R R' \<Longrightarrow> le_res (parseColumnCastExpr R pos p) (parseColumnCastExpr R' pos p)"
  unfolding parseColumnCastExpr_def Let_def by (intro le_res_intros le_parsersD [of R R'])

lemma parseColumnExprListWithTerm_mono:
  "le_parsers R R' \<Longrightarrow> le_res (parseColumnExprListWithTerm R term pos p) (parseColumnExprListWithTerm R' term pos p)"
  unfolding parseColumnExprListWithTerm_def Let_def by (intro le_res_intros le_parsersD [of R R'])

lemma columnExprListLoop_mono:
  "le_parsers R R' \<Longrightarrow> le_res (columnExprListLoop X R term pos hasDistinct columnList p) (columnExprListLoop X R' term pos hasDistinct columnList p)"
  unfolding columnExprListLoop_def Let_def by (intro le_res_intros le_parsersD [of R R'])

lemma parseColumnExprInterval_mono:
  "le_parsers R R' \<Longrightarrow> le_res (parseColumnExprInterval R pos p) (parseColumnExprInterval R' pos p)"
  unfolding parseColumnExprInterval_def Let_def by (intro le_res_intros le_parsersD [of R R'])

lemma parseIdentOrFunction_mono:
  "le_parsers R R' \<Longrightarrow> le_res (parseIdentOrFunction R pos p) (parseIdentOrFunction R' pos p)"
  unfolding parseIdentOrFunction_def Let_def by (intro le_res_intros le_parsersD [of R R'])

lemma parseColumnArgList_mono:
  "le_parsers R R' \<Longrightarrow> le_res (parseColumnArgList R pos p) (parseColumnArgList R' pos p)"
  unfolding parseColumnArgList_def Let_def by (intro le_res_intros le_parsersD [of R R'])

lemma columnArgListLoop_mono:
  "le_parsers R R' \<Longrightarrow> le_res (columnArgListLoop R pos isDistinct items p) (columnArgListLoop R' pos isDistinct items p)"
  unfolding columnArgListLoop_def Let_def by (intro le_res_intros le_parsersD [of R R'])

lemma parseFunctionParams_mono:
  "le_parsers R R' \<Longrightarrow> le_res (parseFunctionParams R pos p) (parseFunctionParams R' pos p)"
  unfolding parseFunctionParams_def Let_def by (intro le_res_intros le_parsersD [of R R'])

lemma parseArrayParams_mono:
  "le_parsers R R' \<Longrightarrow> le_res (parseArrayParams R pos p) (parseArrayParams R' pos p)"
  unfolding parseArrayParams_def Let_def by (intro le_res_intros le_parsersD [of R R'])

lemma parseColumnsExpr_mono:
  "le_parsers R R' \<Longrightarrow> le_res (parseColumnsExpr R pos p) (parseColumnsExpr R' pos p)"
  unfolding parseColumnsExpr_def Let_def by (intro le_res_intros le_parsersD [of R R'])

lemma parseColumnCaseExpr_mono:
  "le_parsers R R' \<Longrightarrow> le_res (parseColumnCaseExpr R pos p) (parseColumnCaseExpr R' pos p)"
  unfolding parseColumnCaseExpr_def Let_def by (intro le_res_intros le_parsersD [of R R'])

lemma caseWhenLoop_mono:
  "le_parsers R R' \<Longrightarrow> le_res (caseWhenLoop R pos expr whenExprs p) (caseWhenLoop R' pos expr whenExprs p)"
  unfolding caseWhenLoop_def Let_def by (intro le_res_intros le_parsersD [of R R'])

lemma parseColumnType_mono:
  "le_parsers R R' \<Longrightarrow> le_res (parseColumnType X R pos p) (parseColumnType X R' pos p)"
  unfolding parseColumnType_def Let_def by (intro le_res_intros le_parsersD [of R R'])

lemma parseComplexType_mono:
  "le_parsers R R' \<Longrightarrow> le_res (parseComplexType R name pos p) (parseComplexType R' name pos p)"
  unfolding parseComplexType_def Let_def by (intro le_res_intros le_parsersD [of R R'])

lemma complexTypeLoop_mono:
  "le_parsers R R' \<Longrightarrow> le_res (complexTypeLoop R name pos subTypes p) (complexTypeLoop R' name pos subTypes p)"
  unfolding complexTypeLoop_def Let_def by (intro le_res_intros le_parsersD [of R R'])

lemma parseEnumExpr_mono:
  "le_parsers R R' \<Longrightarrow> le_res (parseEnumExpr R pos p) (parseEnumExpr R' pos p)"
  unfolding parseEnumExpr_def Let_def by (intro le_res_intros le_parsersD [of R R'])

lemma enumLoop_mono:
  "le_parsers R R' \<Longrightarrow> le_res (enumLoop R pos enums p) (enumLoop R' pos enums p)"
  unfolding enumLoop_def Let_def by (intro le_res_intros le_parsersD [of R R'])

lemma parseColumnTypeWithParams_mono:
  "le_parsers R R' \<Longrightarrow> le_res (parseColumnTypeWithParams R name pos p) (parseColumnTypeWithParams R' name pos p)"
  unfolding parseColumnTypeWithParams_def Let_def by (intro le_res_intros le_parsersD [of R R'])

lemma typeParamsLoop_mono:
  "le_parsers R R' \<Longrightarrow> le_res (typeParamsLoop R name pos params p) (typeParamsLoop R' name pos params p)"
  unfolding typeParamsLoop_def Let_def by (intro le_res_intros le_parsersD [of R R'])

lemma step_mono: "le_parsers R R' \<Longrightarrow> le_parsers (step X R) (step X R')"
  unfolding le_parsers_def [of "step X R"]
proof (intro allI)
  fix c :: "'a call" and p
  assume le: "le_parsers R R'"
  show "le_res (step X R c p) (step X R' c p)"
    by (cases c) (simp_all add: step_def
      parseExpr_mono [OF le] parseOrExpr_mono [OF le] orLoop_mono [OF le] parseAndExpr_mono [OF le] andLoop_mono [OF le] parseNotExpr_mono [OF le] parseIsOrNotNull_mono [OF le] parseCompareExpr_mono [OF le] parseAddSubExpr_mono [OF le] addSubLoop_mono [OF le] parseTernaryExpr_mono [OF le] parseMulDivModExpr_mono [OF le] mulDivModLoop_mono [OF le] parseColumnExtractExpr_mono [OF le] parseUnaryExpr_mono [OF le] parseColumnExpr_mono [OF le] parseColumnCastExpr_mono [OF le] parseColumnExprListWithTerm_mono [OF le] columnExprListLoop_mono [OF le] parseColumnExprInterval_mono [OF le] parseIdentOrFunction_mono [OF le] parseColumnArgList_mono [OF le] columnArgListLoop_mono [OF le] parseFunctionParams_mono [OF le] parseArrayParams_mono [OF le] parseColumnsExpr_mono [OF le] parseColumnCaseExpr_mono [OF le] caseWhenLoop_mono [OF le] parseColumnType_mono [OF le] parseComplexType_mono [OF le] complexTypeLoop_mono [OF le] parseEnumExpr_mono [OF le] enumLoop_mono [OF le] parseColumnTypeWithParams_mono [OF le] typeParamsLoop_mono [OF le])
qed

lemma run_Suc_mono: "le_parsers (run X n) (run X (Suc n))"
proof (induction n)
  case 0
  show ?case by (simp add: le_parsers_def le_res_def)
next
  case (Suc n)
  from step_mono [OF Suc] show ?case by simp
qed

lemma run_Suc_keeps: "run X n c p = r \<Longrightarrow> r \<noteq> OutOfFuel \<Longrightarrow> run X (Suc n) c p = r"
  using le_parsersD [OF run_Suc_mono, of X n c p] by (auto simp: le_res_def)

lemma run_mono: "run X n c p = r \<Longrightarrow> r \<noteq> OutOfFuel \<Longrightarrow> run X (n + k) c p = r"
proof (induction k)
  case 0
  then show ?case by simp
next
  case (Suc k)
  then have "run X (n + k) c p = r" by simp
  from run_Suc_keeps [OF this Suc.prems(2)] show ?case by (simp only: add_Suc_right)
qed

lemma parseInput_mono:
  assumes "parseInput X n c buf = r" and "r \<noteq> OutOfFuel"
  shows "parseInput X (n + k) c buf = r"
proof (cases "start buf")
  case (Ok u p)
  with assms have "run X n (c (PosOf p)) p = r" by (simp add: parseInput_def)
  from run_mono [OF this assms(2)] Ok show ?thesis by (simp add: parseInput_def)
qed (use assms in \<open>simp_all add: parseInput_def\<close>)

section \<open>Evaluating the parser on an input\<close>

lemma run_numeral: "run X (numeral k) = step X (run X (pred_numeral k))"
  by (simp add: numeral_eq_Suc)

lemmas helper_defs =
  last_token_def lastTokenKind_def PosOf_def EqualFold_def matchTokenKind_def matchKeyword_def
  advance_def tryConsumeTokenKind_def consumeTokenKind_def tryConsumeKeyword_def
  consumeKeyword_def parseIdent_def parseNumber_def parseString_def parseLiteral_def
  intervalType_def opType_defs

lemmas grammar_defs =
  step_def parseExpr_def parseOrExpr_def orLoop_def parseAndExpr_def andLoop_def
  parseNotExpr_def parseIsOrNotNull_def compareOperand_def parseCompareExpr_def
  parseAddSubExpr_def addSubLoop_def parseTernaryExpr_def parseMulDivModExpr_def
  mulDivModLoop_def parseColumnExtractExpr_def parseUnaryExpr_def parseColumnStar_def
  parseColumnExpr_def parseColumnCastExpr_def parseColumnExprListWithTerm_def
  columnExprListLoop_def parseColumnExprInterval_def parseIdentOrFunction_def
  parseColumnArgList_def columnArgListLoop_def parseFunctionParams_def parseArrayParams_def
  parseColumnsExpr_def parseColumnCaseExpr_def caseWhenLoop_def parseNestedType_def
  parseColumnType_def parseComplexType_def complexTypeLoop_def parseEnumValueExpr_def
  parseEnumExpr_def enumLoop_def parseColumnTypeWithParams_def typeParamsLoop_def

lemmas eval_defs =
  parseInput_def start_def run_numeral grammar_defs helper_defs scanner_defs
  mkToken_def mkIdent_def mkNumber_def scanner_at_def

section \<open>Keywords at the comparison level\<close>

lemma matchKeywordD:
  "matchKeyword p kw \<Longrightarrow>
     \<exists>t. lastToken p = Some t \<and> Kind t = TokenKeyword \<and> ToUpper (String t) = ToUpper kw"
  by (auto simp: matchKeyword_def matchTokenKind_def lastTokenKind_def EqualFold_def
      split: option.splits)

lemma ToUpper_words [simp]:
  "ToUpper ''NOT'' = ''NOT''" "ToUpper ''IN'' = ''IN''" "ToUpper ''LIKE'' = ''LIKE''"
  "ToUpper ''ILIKE'' = ''ILIKE''" "ToUpper ''GLOBAL'' = ''GLOBAL''"
  "ToUpper ''AND'' = ''AND''" "ToUpper ''OR'' = ''OR''" "ToUpper ''AS'' = ''AS''"
  "ToUpper ''IS'' = ''IS''" "ToUpper ''INTERVAL'' = ''INTERVAL''" "ToUpper ''DATE'' = ''DATE''"
  "ToUpper ''TIMESTAMP'' = ''TIMESTAMP''" "ToUpper ''CAST'' = ''CAST''"
  "ToUpper ''CASE'' = ''CASE''" "ToUpper ''EXTRACT'' = ''EXTRACT''"
  by (simp_all add: ToUpper_def upperChar_def)


section \<open>Shape of the parsed chains\<close>

text \<open>
  Each binary level builds a chain to the left, and the operands of a chain are what the
  next tighter level returns. \<open>bind_eq_Ok\<close> reads a successful sequence backwards.
\<close>

lemma bind_eq_Ok: "bind r f = Ok v p \<longleftrightarrow> (\<exists>a q. r = Ok a q \<and> f a q = Ok v p)"
  by (cases r) simp_all

lemma or_chain:
  "run X n (OrLoop e) p = Ok r p' \<Longrightarrow>
     \<exists>es. r = foldl (\<lambda>a b. BinaryExpr a opTypeOr b False False) e es \<and> (\<forall>x\<in>set es. andLevel X x)"
proof (induction n arbitrary: e p)
  case 0
  then show ?case by simp
next
  case (Suc n)
  from Suc.prems obtain t p1 where t: "tryConsumeKeyword p ''OR'' = Ok t p1"
    and rest: "(case t of None \<Rightarrow> Ok e p1
       | Some _ \<Rightarrow> bind (run X n (ParseAndExpr (PosOf p1)) p1) (\<lambda>rightExpr p2.
             run X n (OrLoop (BinaryExpr e opTypeOr rightExpr False False)) p2)) = Ok r p'"
    by (auto simp: step_def orLoop_def bind_eq_Ok)
  show ?case
  proof (cases t)
    case None
    with rest have "r = foldl (\<lambda>a b. BinaryExpr a opTypeOr b False False) e []" by simp
    then show ?thesis by (metis empty_iff empty_set)
  next
    case (Some tk)
    with rest obtain b p2 where b: "run X n (ParseAndExpr (PosOf p1)) p1 = Ok b p2"
      and l: "run X n (OrLoop (BinaryExpr e opTypeOr b False False)) p2 = Ok r p'"
      by (auto simp: bind_eq_Ok)
    from Suc.IH [OF l] obtain es where
      es: "r = foldl (\<lambda>a b. BinaryExpr a opTypeOr b False False) (BinaryExpr e opTypeOr b False False) es"
        "\<forall>x\<in>set es. andLevel X x"
      by blast
    from b have "andLevel X b" unfolding andLevel_def by blast
    with es have "r = foldl (\<lambda>a b. BinaryExpr a opTypeOr b False False) e (b # es)
        \<and> (\<forall>x\<in>set (b # es). andLevel X x)"
      by simp
    then show ?thesis by blast
  qed
qed

lemma and_chain:
  "run X n (AndLoop e) p = Ok r p' \<Longrightarrow>
     \<exists>es. r = foldl (\<lambda>a b. BinaryExpr a opTypeAnd b False False) e es \<and> (\<forall>x\<in>set es. notLevel X x)"
proof (induction n arbitrary: e p)
  case 0
  then show ?case by simp
next
  case (Suc n)
  from Suc.prems obtain t p1 where t: "tryConsumeKeyword p ''AND'' = Ok t p1"
    and rest: "(case t of None \<Rightarrow> Ok e p1
       | Some _ \<Rightarrow> bind (run X n (ParseNotExpr (PosOf p1)) p1) (\<lambda>rightExpr p2.
             run X n (AndLoop (BinaryExpr e opTypeAnd rightExpr False False)) p2)) = Ok r p'"
    by (auto simp: step_def andLoop_def bind_eq_Ok)
  show ?case
  proof (cases t)
    case None
    with rest have "r = foldl (\<lambda>a b. BinaryExpr a opTypeAnd b False False) e []" by simp
    then show ?thesis by (metis empty_iff empty_set)
  next
    case (Some tk)
    with rest obtain b p2 where b: "run X n (ParseNotExpr (PosOf p1)) p1 = Ok b p2"
      and l: "run X n (AndLoop (BinaryExpr e opTypeAnd b False False)) p2 = Ok r p'"
      by (auto simp: bind_eq_Ok)
    from Suc.IH [OF l] obtain es where
      es: "r = foldl (\<lambda>a b. BinaryExpr a opTypeAnd b False False) (BinaryExpr e opTypeAnd b False False) es"
        "\<forall>x\<in>set es. notLevel X x"
      by blast
    from b have "notLevel X b" unfolding notLevel_def by blast
    with es have "r = foldl (\<lambda>a b. BinaryExpr a opTypeAnd b False False) e (b # es)
        \<and> (\<forall>x\<in>set (b # es). notLevel X x)"
      by simp
    then show ?thesis by blast
  qed
qed

lemma addSub_chain:
  "run X n (AddSubLoop e) p = Ok r p' \<Longrightarrow>
     \<exists>es. r = foldl (\<lambda>a (op, b). BinaryExpr a op b False False) e es
        \<and> (\<forall>(op, x)\<in>set es. (op = opTypePlus \<or> op = opTypeMinus) \<and> mulDivModLevel X x)"
proof (induction n arbitrary: e p)
  case 0
  then show ?case by simp
next
  case (Suc n)
  show ?case
  proof (cases "matchTokenKind p opTypePlus \<or> matchTokenKind p opTypeMinus")
    case False
    with Suc.prems have "r = foldl (\<lambda>a (op, b). BinaryExpr a op b False False) e []"
      by (simp add: step_def addSubLoop_def)
    then show ?thesis by (metis (no_types, lifting) empty_iff empty_set)
  next
    case True
    then have op: "lastTokenKind p = opTypePlus \<or> lastTokenKind p = opTypeMinus"
      by (simp add: matchTokenKind_def)
    from True Suc.prems obtain u p1 b p2 where
      b: "run X n (ParseMulDivModExpr (PosOf p1)) p1 = Ok b p2"
      and l: "run X n (AddSubLoop (BinaryExpr e (lastTokenKind p) b False False)) p2 = Ok r p'"
      by (auto simp: step_def addSubLoop_def bind_eq_Ok)
    from Suc.IH [OF l] obtain es where
      es: "r = foldl (\<lambda>a (op, b). BinaryExpr a op b False False)
                 (BinaryExpr e (lastTokenKind p) b False False) es"
        "\<forall>(op, x)\<in>set es. (op = opTypePlus \<or> op = opTypeMinus) \<and> mulDivModLevel X x"
      by blast
    from b have "mulDivModLevel X b" unfolding mulDivModLevel_def by blast
    with es op have "r = foldl (\<lambda>a (op, b). BinaryExpr a op b False False) e ((lastTokenKind p, b) # es)
        \<and> (\<forall>(op, x)\<in>set ((lastTokenKind p, b) # es). (op = opTypePlus \<or> op = opTypeMinus) \<and> mulDivModLevel X x)"
      by simp
    then show ?thesis by blast
  qed
qed


section \<open>The unchecked operand of \<open>GLOBAL\<close>, and the cases of \<open>parseColumnType\<close>\<close>

lemma global_operand_unchecked:
  assumes lhs: "R (ParseAddSubExpr pos) p = Ok lhs p1"
    and g: "matchKeyword p1 ''GLOBAL''"
    and adv: "advance p1 = Ok u p2"
  shows "parseCompareExpr R pos p =
     (case lastToken p2 of
        None \<Rightarrow> Panic
      | Some t \<Rightarrow>
          bind (advance p2) (\<lambda>_ p3.
          bind (R (ParseAddSubExpr (PosOf p3)) p3) (\<lambda>rightExpr p4.
            Ok (BinaryExpr lhs (ToUpper (String t)) rightExpr False True) p4)))"
proof -
  from matchKeywordD [OF g] obtain t where
    t: "lastToken p1 = Some t" "Kind t = TokenKeyword" "ToUpper (String t) = ''GLOBAL''"
    by auto
  have kind: "lastTokenKind p1 = TokenKeyword"
    using t by (simp add: lastTokenKind_def)
  have no_op: "\<not> matchTokenKind p1 k" if "k \<noteq> TokenKeyword" for k
    using that kind by (simp add: matchTokenKind_def)
  have no_kw: "\<not> matchKeyword p1 w" if "ToUpper w \<noteq> ''GLOBAL''" for w
    using that t by (auto simp: matchKeyword_def EqualFold_def)
  show ?thesis
    unfolding parseCompareExpr_def
    by (simp add: lhs g adv no_op no_kw opType_defs TokenKeyword_def compareOperand_def
        last_token_def)
qed

lemma parseColumnType_scalar:
  assumes "parseIdent p = Ok ident p1" and "lastTokenKind p1 \<noteq> ''(''"
  shows "parseColumnType X R pos p = Ok (ScalarTypeExpr ident) p1"
  using assms
  by (auto simp: parseColumnType_def tryConsumeTokenKind_def lastTokenKind_def split: option.splits)

lemma parseColumnType_args:
  assumes "parseIdent p = Ok ident p1" and "lastTokenKind p1 = ''(''" and "advance p1 = Ok u p2"
  shows "parseColumnType X R pos p =
    (if matchTokenKind p2 TokenIdent then
       (if Name ident = ''Nested'' then parseNestedType X ident (PosOf p2) p2
        else R (ParseComplexType ident (PosOf p2)) p2)
     else if matchTokenKind p2 TokenString then
       (case peekToken p2 of
          None \<Rightarrow> Hang
        | Some (Inl err, p3) \<Rightarrow> R (ParseColumnTypeWithParams ident (PosOf p3)) p3
        | Some (Inr None, p3) \<Rightarrow> Panic
        | Some (Inr (Some peek), p3) \<Rightarrow>
            if Kind peek = ''='' then R (ParseEnumExpr (PosOf p3)) p3
            else R (ParseColumnTypeWithParams ident (PosOf p3)) p3)
     else if matchTokenKind p2 TokenInt then R (ParseColumnTypeWithParams ident (PosOf p2)) p2
     else Err (UnexpectedTokenKind (lastTokenKind p2)))"
  using assms
  by (auto simp: parseColumnType_def tryConsumeTokenKind_def lastTokenKind_def TokenEOF_def
      split: option.splits)


text \<open>
  With \<open>parseString\<close> consuming a string token, \<open>parseEnumValueExpr\<close> consumes the label
  twice: once by \<open>consumeTokenKind\<close> and once by \<open>parseString\<close>. A pair \<open>'a' = 1\<close> is then
  an error.
\<close>

lemma enum_pair_rejected:
  "parseInput X (20 + k) ParseColumnType (''Enum8('' @ [CHR 0x27, CHR ''a'', CHR 0x27] @ ''=1)'') =
     Err (ExpectedTokenKind TokenString ''='')"
proof -
  have "parseInput X 20 ParseColumnType (''Enum8('' @ [CHR 0x27, CHR ''a'', CHR 0x27] @ ''=1)'') =
     Err (ExpectedTokenKind TokenString ''='')"
    by (simp add: eval_defs)
  from parseInput_mono [OF this, of k] show ?thesis by simp
qed

section \<open>Operands and operators in a row\<close>

text \<open>
  What each level of the grammar returns on an operand, an operator and an operand, and
  on three operands with two operators of the level, given what the level below returns
  on the operands. A chain ends at a token that is no operator of the level.
\<close>

subsection \<open>Tokens\<close>

lemma run_Suc: "run X (Suc n) c p = step X (run X n) c p"
  by simp













subsection \<open>One call of each level\<close>


















subsection \<open>Primary operands\<close>




text \<open>
  Every number token is a primary operand, and so is every identifier token that no \<open>(\<close>
  follows: the operands of the theorems below need not be the ones of the examples.
\<close>

lemma number_primary:
  assumes "lastToken p = Some t" and "Kind t = TokenInt \<or> Kind t = TokenFloat"
    and "advance p = Ok u q"
  shows "run X (Suc n) (ParseColumnExpr pos) p =
         Ok (NumberExpr \<lparr>NumPos = pos, NumEnd = End t, NumLiteral = String t, NumBase = Base t\<rparr>) q"
  using assms
  by (subst run_Suc)
     (auto simp add: step_def parseColumnExpr_def parseNumber_def consumeTokenKind_def
        tryConsumeTokenKind_def matchKeyword_def matchTokenKind_def lastTokenKind_def
        TokenKind_defs simp del: run.simps)

lemma ident_primary:
  assumes "lastToken p = Some t" and "Kind t = TokenIdent"
    and "advance p = Ok u q" and "\<not> matchTokenKind q ''(''"
  shows "run X (Suc (Suc n)) (ParseColumnExpr pos) p =
         Ok (IdentExpr \<lparr>NamePos = Pos t, NameEnd = End t, Name = String t\<rparr>) q"
proof -
  have "run X (Suc n) (ParseIdentOrFunction pos) p =
        Ok (IdentExpr \<lparr>NamePos = Pos t, NameEnd = End t, Name = String t\<rparr>) q"
    using assms
    by (subst run_Suc)
       (simp add: step_def parseIdentOrFunction_def parseIdent_def consumeTokenKind_def
          tryConsumeTokenKind_def del: run.simps)
  with assms(1,2) show ?thesis
    by (subst run_Suc)
       (simp add: step_def parseColumnExpr_def matchKeyword_def matchTokenKind_def
          lastTokenKind_def TokenKind_defs del: run.simps)
qed

subsection \<open>The multiplicative level\<close>




subsection \<open>The additive level\<close>




subsection \<open>From the additive level to \<open>parseNotExpr\<close>\<close>



subsection \<open>The level of \<open>AND\<close>\<close>




subsection \<open>The level of \<open>OR\<close>\<close>




subsection \<open>Up to \<open>parseExpr\<close> at the end of the input\<close>



subsection \<open>Three primary operands and two operators\<close>










section \<open>The claims about the scanner\<close>

text \<open>
  Claim C2 says that \<open>consumeToken\<close> returns on every input buffer, and that a \<open>/*\<close>
  comment without its \<open>*/\<close> is skipped to the end of the input. The code does not return
  on the buffer \<open>/*x\<close>: after the opening \<open>/*\<close> the cursor is before the end of the
  input, the loop of \<open>consumeMultiLineComment\<close> tests the cursor, which it never moves,
  and no \<open>*/\<close> follows, so the loop is never left.
\<close>

theorem unterminated_comment_hangs: "consumeToken (NewLexer ''/*x'') = None"
proof -
  have "multiLineCommentLoop (skipN (NewLexer ''/*x'') 2) 0 = None"
    by (rule multiLineCommentLoop_None) (simp_all add: isEOF_def peekOk_def skipN_def NewLexer_def)
  then have "consumeMultiLineComment (NewLexer ''/*x'') = None"
    by (simp add: consumeMultiLineComment_def Let_def)
  then have "skipComments (NewLexer ''/*x'') = None"
    by (subst skipComments.simps) (simp add: isEOF_def peekN_def peekIs_def peekOk_def NewLexer_def)
  moreover have "skipSpace (NewLexer ''/*x'') = NewLexer ''/*x''"
    by (simp add: skipSpace.simps isEOF_def NewLexer_def IsSpace_def byte_def)
  ultimately show ?thesis
    by (simp add: consumeToken_def Let_def NewLexer_def)
qed

text \<open>
  Claim C3 says that a numeric literal holds at most one \<open>.\<close> and that scanning \<open>1.2.3\<close>
  is a lexical error. The loop of \<open>consumeNumber\<close> accepts every \<open>.\<close> it meets: on the
  buffer \<open>1.2.3\<close> the scanner returns no error and one float token with the text \<open>1.2.3\<close>.
\<close>

theorem two_dots_one_float:
  "consumeToken (NewLexer ''1.2.3'') =
     Some (None, \<lparr>input = ''1.2.3'', current = 5,
       lastToken = Some \<lparr>Pos = 0, End = 5, Kind = TokenFloat, String = ''1.2.3'',
                         Base = 10, Unquoted = False\<rparr>\<rparr>)"
  by (simp add: scanner_defs)

text \<open>
  Claim C4 says that \<open>peekToken\<close> leaves the cursor and the cached token as they were,
  also when it returns an error. It restores them only after a successful scan
  (\<open>peekToken_restores\<close>); after a failed one the cache is empty
  (\<open>failed_peek_clears_cache\<close>). On the buffer \<open>a `b\<close>, with the token \<open>a\<close> cached and the cursor
  behind it, \<open>peekToken\<close> returns the error of the unclosed quoted identifier and leaves
  the cursor at 3 and the cache empty.
\<close>

theorem failed_peek_moves_scanner:
  "peekToken \<lparr>input = ''a `b'', current = 1,
              lastToken = Some \<lparr>Pos = 0, End = 1, Kind = TokenIdent, String = ''a'',
                                Base = 0, Unquoted = False\<rparr>\<rparr> =
     Some (Inl (UnclosedQuotedIdent ''b''), \<lparr>input = ''a `b'', current = 3, lastToken = None\<rparr>)"
  by (simp add: scanner_defs)

text \<open>
  Claim C5 says that a \<open>.\<close> that neither follows an identifier token nor precedes a digit
  is a lexical error, and so is a token after a bare \<open>.\<close> that does not start an
  identifier. \<open>consumeToken\<close> clears the cached token before it tests it, so neither
  error is ever returned (\<open>consumeToken_no_dot_error\<close>). On the buffer \<open>1 . 2\<close> three calls
  return the tokens \<open>1\<close>, \<open>.\<close> and \<open>2\<close> without an error.
\<close>

theorem misplaced_dots_accepted:
  "consumeToken (NewLexer ''1 . 2'') =
     Some (None, \<lparr>input = ''1 . 2'', current = 1,
       lastToken = Some \<lparr>Pos = 0, End = 1, Kind = TokenInt, String = ''1'',
                         Base = 10, Unquoted = False\<rparr>\<rparr>)
   \<and> consumeToken \<lparr>input = ''1 . 2'', current = 1,
       lastToken = Some \<lparr>Pos = 0, End = 1, Kind = TokenInt, String = ''1'',
                         Base = 10, Unquoted = False\<rparr>\<rparr> =
     Some (None, \<lparr>input = ''1 . 2'', current = 3,
       lastToken = Some \<lparr>Pos = 2, End = 3, Kind = ''.'', String = ''.'',
                         Base = 0, Unquoted = False\<rparr>\<rparr>)
   \<and> consumeToken \<lparr>input = ''1 . 2'', current = 3,
       lastToken = Some \<lparr>Pos = 2, End = 3, Kind = ''.'', String = ''.'',
                         Base = 0, Unquoted = False\<rparr>\<rparr> =
     Some (None, \<lparr>input = ''1 . 2'', current = 5,
       lastToken = Some \<lparr>Pos = 4, End = 5, Kind = TokenInt, String = ''2'',
                         Base = 10, Unquoted = False\<rparr>\<rparr>)"
  by (simp add: scanner_defs)

text \<open>
  Claim C10, agreement of \<open>peekToken\<close> and \<open>consumeToken\<close>: when \<open>peekToken\<close> returns the
  token \<open>t\<close> (a pointer, nil at the end of the input) and no error, \<open>consumeToken\<close> called
  next returns no error and caches a token equal to \<open>t\<close> in every field.
\<close>

theorem peek_next_agree:
  "peekToken l = Some (Inr t, l') \<Longrightarrow>
     \<exists>l''. consumeToken l' = Some (None, l'') \<and> lastToken l'' = t"
proof -
  assume p: "peekToken l = Some (Inr t, l')"
  then have "l' = l" by (rule peekToken_restores)
  moreover from p obtain l0 where "consumeToken l = Some (None, l0)" "lastToken l0 = t"
    by (auto simp: peekToken_def split: option.splits prod.splits)
  ultimately show ?thesis by blast
qed

theorem peek_next_agree_witness:
  "peekToken (NewLexer ''a b'') =
     Some (Inr (Some \<lparr>Pos = 0, End = 1, Kind = TokenIdent, String = ''a'',
                      Base = 0, Unquoted = False\<rparr>), NewLexer ''a b'')
   \<and> (\<exists>l''. consumeToken (NewLexer ''a b'') = Some (None, l'')
         \<and> lastToken l'' = Some \<lparr>Pos = 0, End = 1, Kind = TokenIdent, String = ''a'',
                                  Base = 0, Unquoted = False\<rparr>)"
proof -
  have p: "peekToken (NewLexer ''a b'') =
     Some (Inr (Some \<lparr>Pos = 0, End = 1, Kind = TokenIdent, String = ''a'',
                      Base = 0, Unquoted = False\<rparr>), NewLexer ''a b'')"
    by (simp add: scanner_defs)
  from peek_next_agree [OF p] p show ?thesis by blast
qed


section \<open>The claims about the grammar\<close>




text \<open>
  The same three inputs, handed to \<open>parseExpr\<close> as buffers, for any external parsers and
  any bound of at least 20 on the depth of calls.
\<close>

lemma precedence_examples:
  "parseInput X (20 + k) ParseExpr ''a AND b OR c'' =
     Ok (BinaryExpr
           (BinaryExpr (mkIdent 0 1 ''a'') opTypeAnd (mkIdent 6 7 ''b'') False False)
           opTypeOr (mkIdent 11 12 ''c'') False False)
        \<lparr>input = ''a AND b OR c'', current = 12, lastToken = None\<rparr>
   \<and> parseInput X (20 + k) ParseExpr ''a OR b AND c'' =
     Ok (BinaryExpr (mkIdent 0 1 ''a'') opTypeOr
           (BinaryExpr (mkIdent 5 6 ''b'') opTypeAnd (mkIdent 11 12 ''c'') False False)
           False False)
        \<lparr>input = ''a OR b AND c'', current = 12, lastToken = None\<rparr>
   \<and> parseInput X (20 + k) ParseExpr ''1 + 2 * 3'' =
     Ok (BinaryExpr (mkNumber 0 1 ''1'') opTypePlus
           (BinaryExpr (mkNumber 4 5 ''2'') opTypeMul (mkNumber 8 9 ''3'') False False)
           False False)
        \<lparr>input = ''1 + 2 * 3'', current = 9, lastToken = None\<rparr>"
proof -
  have 1: "parseInput X 20 ParseExpr ''a AND b OR c'' =
     Ok (BinaryExpr
           (BinaryExpr (mkIdent 0 1 ''a'') opTypeAnd (mkIdent 6 7 ''b'') False False)
           opTypeOr (mkIdent 11 12 ''c'') False False)
        \<lparr>input = ''a AND b OR c'', current = 12, lastToken = None\<rparr>"
    by (simp add: eval_defs)
  have 2: "parseInput X 20 ParseExpr ''a OR b AND c'' =
     Ok (BinaryExpr (mkIdent 0 1 ''a'') opTypeOr
           (BinaryExpr (mkIdent 5 6 ''b'') opTypeAnd (mkIdent 11 12 ''c'') False False)
           False False)
        \<lparr>input = ''a OR b AND c'', current = 12, lastToken = None\<rparr>"
    by (simp add: eval_defs)
  have 3: "parseInput X 20 ParseExpr ''1 + 2 * 3'' =
     Ok (BinaryExpr (mkNumber 0 1 ''1'') opTypePlus
           (BinaryExpr (mkNumber 4 5 ''2'') opTypeMul (mkNumber 8 9 ''3'') False False)
           False False)
        \<lparr>input = ''1 + 2 * 3'', current = 9, lastToken = None\<rparr>"
    by (simp add: eval_defs)
  show ?thesis
    using parseInput_mono [OF 1, of k] parseInput_mono [OF 2, of k] parseInput_mono [OF 3, of k]
    by simp
qed

text \<open>
  Claim C6: at the comparison level, once the left operand is parsed and the keyword
  \<open>NOT\<close> is consumed, either the next token is none of \<open>IN\<close>, \<open>LIKE\<close>, \<open>ILIKE\<close> and
  \<open>parseCompareExpr\<close> returns the error, or it is one of them and \<open>parseCompareExpr\<close>
  consumes it, parses the right operand and returns the binary node with that operator
  and the not flag (or what the right operand failed with). \<open>R\<close> is any behaviour of the
  functions that \<open>parseCompareExpr\<close> calls.
\<close>

theorem not_requires_in_like:
  assumes lhs: "R (ParseAddSubExpr pos) p = Ok lhs p1"
    and nt: "matchKeyword p1 ''NOT''"
    and adv: "advance p1 = Ok u p2"
  shows "(\<not> (matchKeyword p2 ''IN'' \<or> matchKeyword p2 ''LIKE'' \<or> matchKeyword p2 ''ILIKE'')
           \<and> parseCompareExpr R pos p = Err (ExpectedAfterNot (lastTokenKind p2)))
       \<or> ((matchKeyword p2 ''IN'' \<or> matchKeyword p2 ''LIKE'' \<or> matchKeyword p2 ''ILIKE'')
           \<and> (\<exists>op \<in> {''IN'', ''LIKE'', ''ILIKE''}.
                parseCompareExpr R pos p =
                  bind (advance p2) (\<lambda>_ p3.
                  bind (R (ParseAddSubExpr (PosOf p3)) p3) (\<lambda>rightExpr p4.
                    Ok (BinaryExpr lhs op rightExpr True False) p4))))"
proof -
  from matchKeywordD [OF nt] obtain t where
    t: "lastToken p1 = Some t" "Kind t = TokenKeyword" "ToUpper (String t) = ''NOT''"
    by auto
  have kind: "lastTokenKind p1 = TokenKeyword"
    using t by (simp add: lastTokenKind_def)
  have no_op: "\<not> matchTokenKind p1 k" if "k \<noteq> TokenKeyword" for k
    using that kind by (simp add: matchTokenKind_def)
  have no_kw: "\<not> matchKeyword p1 w" if "ToUpper w \<noteq> ''NOT''" for w
    using that t by (auto simp: matchKeyword_def EqualFold_def)
  have c: "parseCompareExpr R pos p =
      (if matchKeyword p2 ''IN'' \<or> matchKeyword p2 ''LIKE'' \<or> matchKeyword p2 ''ILIKE''
         then compareOperand R lhs True False p2
       else Err (ExpectedAfterNot (lastTokenKind p2)))"
    unfolding parseCompareExpr_def
    by (simp add: lhs nt adv no_op no_kw opType_defs TokenKeyword_def)
  show ?thesis
  proof (cases "matchKeyword p2 ''IN'' \<or> matchKeyword p2 ''LIKE'' \<or> matchKeyword p2 ''ILIKE''")
    case False
    with c show ?thesis by simp
  next
    case True
    then obtain t2 where t2: "lastToken p2 = Some t2"
      and op: "ToUpper (String t2) \<in> {''IN'', ''LIKE'', ''ILIKE''}"
      using matchKeywordD [of p2 "''IN''"] matchKeywordD [of p2 "''LIKE''"]
        matchKeywordD [of p2 "''ILIKE''"] by auto
    from c True t2 have "parseCompareExpr R pos p =
        bind (advance p2) (\<lambda>_ p3.
        bind (R (ParseAddSubExpr (PosOf p3)) p3) (\<lambda>rightExpr p4.
          Ok (BinaryExpr lhs (ToUpper (String t2)) rightExpr True False) p4))"
      by (simp add: compareOperand_def last_token_def)
    with True op show ?thesis by blast
  qed
qed

text \<open>
  The inputs \<open>a NOT x\<close>, which is an error, and \<open>a NOT in b\<close>, which is the binary node
  with the operator \<open>IN\<close> and the not flag.
\<close>

theorem not_requires_in_like_witness:
  "run noExternal 20 (ParseAddSubExpr 0)
       \<lparr>input = ''a NOT x'', current = 1, lastToken = Some (mkToken 0 1 TokenIdent ''a'')\<rparr> =
     Ok (mkIdent 0 1 ''a'')
       \<lparr>input = ''a NOT x'', current = 5, lastToken = Some (mkToken 2 5 TokenKeyword ''NOT'')\<rparr>
   \<and> matchKeyword
       \<lparr>input = ''a NOT x'', current = 5, lastToken = Some (mkToken 2 5 TokenKeyword ''NOT'')\<rparr> ''NOT''
   \<and> advance
       \<lparr>input = ''a NOT x'', current = 5, lastToken = Some (mkToken 2 5 TokenKeyword ''NOT'')\<rparr> =
     Ok () \<lparr>input = ''a NOT x'', current = 7, lastToken = Some (mkToken 6 7 TokenIdent ''x'')\<rparr>
   \<and> parseCompareExpr (run noExternal 20) 0
       \<lparr>input = ''a NOT x'', current = 1, lastToken = Some (mkToken 0 1 TokenIdent ''a'')\<rparr> =
     Err (ExpectedAfterNot TokenIdent)
   \<and> run noExternal 20 (ParseAddSubExpr 0)
       \<lparr>input = ''a NOT in b'', current = 1, lastToken = Some (mkToken 0 1 TokenIdent ''a'')\<rparr> =
     Ok (mkIdent 0 1 ''a'')
       \<lparr>input = ''a NOT in b'', current = 5, lastToken = Some (mkToken 2 5 TokenKeyword ''NOT'')\<rparr>
   \<and> matchKeyword
       \<lparr>input = ''a NOT in b'', current = 5, lastToken = Some (mkToken 2 5 TokenKeyword ''NOT'')\<rparr> ''NOT''
   \<and> advance
       \<lparr>input = ''a NOT in b'', current = 5, lastToken = Some (mkToken 2 5 TokenKeyword ''NOT'')\<rparr> =
     Ok () \<lparr>input = ''a NOT in b'', current = 8, lastToken = Some (mkToken 6 8 TokenKeyword ''in'')\<rparr>
   \<and> parseCompareExpr (run noExternal 20) 0
       \<lparr>input = ''a NOT in b'', current = 1, lastToken = Some (mkToken 0 1 TokenIdent ''a'')\<rparr> =
     Ok (BinaryExpr (mkIdent 0 1 ''a'') ''IN'' (mkIdent 9 10 ''b'') True False)
       \<lparr>input = ''a NOT in b'', current = 10, lastToken = None\<rparr>"
proof -
  let ?a = "\<lambda>s. \<lparr>input = s, current = 1, lastToken = Some (mkToken 0 1 TokenIdent ''a'')\<rparr>"
  let ?n = "\<lambda>s. \<lparr>input = s, current = 5, lastToken = Some (mkToken 2 5 TokenKeyword ''NOT'')\<rparr>"
  let ?x = "\<lparr>input = ''a NOT x'', current = 7, lastToken = Some (mkToken 6 7 TokenIdent ''x'')\<rparr>"
  let ?i = "\<lparr>input = ''a NOT in b'', current = 8, lastToken = Some (mkToken 6 8 TokenKeyword ''in'')\<rparr>"
  have l1: "run noExternal 20 (ParseAddSubExpr 0) (?a ''a NOT x'') = Ok (mkIdent 0 1 ''a'') (?n ''a NOT x'')"
    by (simp add: eval_defs)
  have n1: "matchKeyword (?n ''a NOT x'') ''NOT''"
    by (simp add: eval_defs)
  have a1: "advance (?n ''a NOT x'') = Ok () ?x"
    by (simp add: eval_defs)
  have x1: "\<not> (matchKeyword ?x ''IN'' \<or> matchKeyword ?x ''LIKE'' \<or> matchKeyword ?x ''ILIKE'')"
    by (simp add: eval_defs)
  have k1: "lastTokenKind ?x = TokenIdent"
    by (simp add: eval_defs)
  have l2: "run noExternal 20 (ParseAddSubExpr 0) (?a ''a NOT in b'') = Ok (mkIdent 0 1 ''a'') (?n ''a NOT in b'')"
    by (simp add: eval_defs)
  have n2: "matchKeyword (?n ''a NOT in b'') ''NOT''"
    by (simp add: eval_defs)
  have a2: "advance (?n ''a NOT in b'') = Ok () ?i"
    by (simp add: eval_defs)
  have i2: "matchKeyword ?i ''IN''"
    by (simp add: eval_defs)
  have r2: "bind (advance ?i) (\<lambda>_ p3.
              bind (run noExternal 20 (ParseAddSubExpr (PosOf p3)) p3) (\<lambda>rightExpr p4.
                Ok (BinaryExpr (mkIdent 0 1 ''a'') op rightExpr True False) p4)) =
            Ok (BinaryExpr (mkIdent 0 1 ''a'') op (mkIdent 9 10 ''b'') True False)
              \<lparr>input = ''a NOT in b'', current = 10, lastToken = None\<rparr>" for op
    by (simp add: eval_defs)
  from not_requires_in_like [of "run noExternal 20", OF l1 n1 a1] x1 k1
  have e1: "parseCompareExpr (run noExternal 20) 0 (?a ''a NOT x'') = Err (ExpectedAfterNot TokenIdent)"
    by simp
  from not_requires_in_like [of "run noExternal 20", OF l2 n2 a2] i2 obtain op where
    "op \<in> {''IN'', ''LIKE'', ''ILIKE''}"
    "parseCompareExpr (run noExternal 20) 0 (?a ''a NOT in b'') =
       Ok (BinaryExpr (mkIdent 0 1 ''a'') op (mkIdent 9 10 ''b'') True False)
         \<lparr>input = ''a NOT in b'', current = 10, lastToken = None\<rparr>"
    unfolding r2 by blast
  moreover have "parseCompareExpr (run noExternal 20) 0 (?a ''a NOT in b'') =
       Ok (BinaryExpr (mkIdent 0 1 ''a'') ''IN'' (mkIdent 9 10 ''b'') True False)
         \<lparr>input = ''a NOT in b'', current = 10, lastToken = None\<rparr>"
    by (simp add: eval_defs)
  ultimately show ?thesis using l1 n1 a1 e1 l2 n2 a2 by simp
qed

text \<open>
  Claim C7 says that a \<open>GLOBAL\<close> consumed at the comparison level is followed by \<open>IN\<close>,
  \<open>LIKE\<close> or \<open>ILIKE\<close> and that any other token after it is not accepted. Unlike the case
  of \<open>NOT\<close>, the case of \<open>GLOBAL\<close> in \<open>parseCompareExpr\<close> does not look at the next token:
  on \<open>a GLOBAL = b\<close> it returns the binary node with the global flag and the operator
  \<open>=\<close>.
\<close>

theorem global_takes_any_operator:
  "parseInput X (20 + k) ParseCompareExpr ''a GLOBAL = b'' =
     Ok (BinaryExpr (mkIdent 0 1 ''a'') ''='' (mkIdent 11 12 ''b'') False True)
        \<lparr>input = ''a GLOBAL = b'', current = 12, lastToken = None\<rparr>"
proof -
  have "parseInput X 20 ParseCompareExpr ''a GLOBAL = b'' =
     Ok (BinaryExpr (mkIdent 0 1 ''a'') ''='' (mkIdent 11 12 ''b'') False True)
        \<lparr>input = ''a GLOBAL = b'', current = 12, lastToken = None\<rparr>"
    by (simp add: eval_defs)
  from parseInput_mono [OF this, of k] show ?thesis by simp
qed

text \<open>
  Claim C8 describes the dispatch of \<open>parseColumnType\<close>; its case of a string that is not
  followed by \<open>=\<close> is to parse a list of literals. When the string is the last token of
  the input, as in \<open>T('a'\<close>, \<open>peekToken\<close> returns a nil token and no error, and
  \<open>parseColumnType\<close> reads the kind of that nil token: it panics.
\<close>

theorem type_string_at_end_panics:
  "parseInput X (20 + k) ParseColumnType (''T('' @ [CHR 0x27, CHR ''a'', CHR 0x27]) = Panic"
proof -
  have "parseInput X 20 ParseColumnType (''T('' @ [CHR 0x27, CHR ''a'', CHR 0x27]) = Panic"
    by (simp add: eval_defs)
  from parseInput_mono [OF this, of k] show ?thesis by simp
qed

text \<open>
  Claim C9: the scanner reads \<open>-2\<close> in \<open>1 -2\<close> as one signed integer literal, so
  \<open>parseExpr\<close> returns the integer literal \<open>1\<close>, not a subtraction, and leaves the token
  \<open>-2\<close> in the cache, not consumed.
\<close>

theorem abutting_sign_is_no_operator:
  "parseInput X (20 + k) ParseExpr ''1 -2'' =
     Ok (mkNumber 0 1 ''1'')
        \<lparr>input = ''1 -2'', current = 4,
          lastToken = Some \<lparr>Pos = 2, End = 4, Kind = TokenInt, String = ''-2'',
                            Base = 10, Unquoted = False\<rparr>\<rparr>"
proof -
  have "parseInput X 20 ParseExpr ''1 -2'' =
     Ok (mkNumber 0 1 ''1'')
        \<lparr>input = ''1 -2'', current = 4,
          lastToken = Some \<lparr>Pos = 2, End = 4, Kind = TokenInt, String = ''-2'',
                            Base = 10, Unquoted = False\<rparr>\<rparr>"
    by (simp add: eval_defs)
  from parseInput_mono [OF this, of k] show ?thesis by simp
qed

end
